theory Spec2Isabelle
  imports Main "HOL-Library.Word" "HOL-Library.Signed_Division" "HOL-Library.Monad_Syntax"
begin

unbundle bit_operations_syntax

section \<open>The periodic motor-control interrupt of bldc.c\<close>

text \<open>
  The handler \<open>DMA1_Channel1_IRQHandler\<close> of \<open>Src/bldc.c\<close> runs once per ADC/DMA
  period. It is embedded as a function from the values it reads (\<open>tick_input\<close>) and the
  variables and registers it owns (\<open>state\<close>) to the state after the tick.

  Integers have the widths of the C declarations: a \<open>uint16_t\<close> or \<open>int16_t\<close> variable
  is a \<open>16 word\<close>, read with \<open>uint\<close> or \<open>sint\<close> where C promotes it to the 32-bit
  \<open>int\<close> of the target, and stored back with \<open>word_of_int\<close>, which wraps as the
  conversion of the compiler does. The intermediate \<open>int\<close> values of the handler are
  sums and differences of two 16-bit values at most and stay far inside 32 bits, so they
  are computed in \<open>int\<close>. C's \<open>/\<close> and \<open>%\<close> truncate towards zero: \<open>sdiv\<close> and
  \<open>smod\<close>.
\<close>

type_synonym uint8_t = "8 word"
type_synonym int8_t = "8 word"
type_synonym uint16_t = "16 word"
type_synonym int16_t = "16 word"
type_synonym uint32_t = "32 word"
type_synonym int32_t = "32 word"

subsection \<open>Macros, constants and tables declared outside bldc.c\<close>

text \<open>Modelled from the spec: the macro \<open>ABS\<close> of defines.h, which is not among the
  sources; the magnitude of the interlock (section 4.5), taken on the promoted operand.\<close>

definition ABS :: "int \<Rightarrow> int" where
  "ABS a = (if a < 0 then - a else a)"

text \<open>Modelled from the spec: the macro \<open>CLAMP\<close> of defines.h, which is not among the
  sources; the inclusive window of the duty clamp (section 4.8).\<close>

definition CLAMP :: "int \<Rightarrow> int \<Rightarrow> int \<Rightarrow> int" where
  "CLAMP x low high = (if x > high then high else if x < low then low else x)"

text \<open>Modelled from the spec: the constant \<open>PWM_FREQ\<close> of config.h, which is not among
  the sources; the 16 kHz tick rate of section 1, for which the source annotates the
  quotient \<open>pwm_res\<close> as 2000.\<close>

definition PWM_FREQ :: int where
  "PWM_FREQ = 16000"

definition pwm_res :: uint16_t where
  "pwm_res = word_of_int (64000000 sdiv 2 sdiv PWM_FREQ)"

text \<open>Modelled from the spec: the table \<open>rtConstP.vec_hallToPos_Value\<close> of the generated
  controller data, which is not among the sources; the 8-entry position table of
  section 4.6, with the entries that the source lists beside the lookup.\<close>

definition vec_hallToPos_Value :: "uint8_t list" where
  "vec_hallToPos_Value = [0, 2, 0, 1, 4, 3, 5, 0]"

subsection \<open>Odometry helpers\<close>

definition enc_vals_table :: "int8_t list" where
  "enc_vals_table = [0, - 1, - 2, 0, 2, 1]"

text \<open>An array read; an index past the end has no value.\<close>

definition array_read :: "'a list \<Rightarrow> nat \<Rightarrow> 'a option" where
  "array_read xs i = (if i < length xs then Some (xs ! i) else None)"

text \<open>\<open>((value % max) + max) % max\<close> on the promoted operands; the division by a zero
  \<open>max\<close> has no value.\<close>

definition clamp_module_max :: "int16_t \<Rightarrow> uint16_t \<Rightarrow> uint16_t option" where
  "clamp_module_max val mx =
     (if mx = 0 then None
      else Some (word_of_int (((sint val smod uint mx) + uint mx) smod uint mx)))"

definition calc_encoder_ticks :: "uint8_t \<Rightarrow> uint8_t \<Rightarrow> int8_t option" where
  "calc_encoder_ticks enc_val_previous enc_val_current =
     do {
       i \<leftarrow> clamp_module_max (word_of_int (uint enc_val_previous - uint enc_val_current)) 6;
       array_read enc_vals_table (unat i)
     }"

subsection \<open>Data\<close>

record adc_buf_t =
  rlA :: uint16_t
  rlB :: uint16_t
  rrB :: uint16_t
  rrC :: uint16_t
  dcl :: uint16_t
  dcr :: uint16_t
  batt1 :: uint16_t

text \<open>The input and output records of the controller, with the fields the handler
  names, and the one parameter it reads.\<close>

record ExtU =
  b_motEna :: uint8_t
  z_ctrlModReq :: uint8_t
  r_inpTgt :: int16_t
  b_hallA :: uint8_t
  b_hallB :: uint8_t
  b_hallC :: uint8_t
  i_phaAB :: int16_t
  i_phaBC :: int16_t
  i_DCLink :: int16_t
  a_mechAngle :: int16_t

record ExtY =
  DC_phaA :: int16_t
  DC_phaB :: int16_t
  DC_phaC :: int16_t
  z_errCode :: uint8_t
  n_mot :: int16_t
  a_elecAngle :: int16_t

record P =
  z_ctrlTypSel :: uint8_t

text \<open>A timer: the master-output-enable bit of its BDTR register and its three compare
  registers.\<close>

record TIM =
  BDTR_MOE :: bool
  TIM_U :: uint16_t
  TIM_V :: uint16_t
  TIM_W :: uint16_t

datatype motor = Left | Right

datatype phase = U | V | W

text \<open>The register writes and controller calls of the handler, in program order.\<close>

datatype hw_event =
  DMA_IFCR_write
| BDTR_write motor bool
| BUZZER_toggle
| BUZZER_reset
| Controller_step motor
| Compare_write motor phase uint16_t

text \<open>
  What the handler only reads: the ADC buffer filled by the DMA, the levels of the six
  hall input lines (\<open>True\<close> when \<open>IDR & PIN\<close> is nonzero), and the globals that the main
  loop writes between ticks.
\<close>

record tick_input =
  adc_buffer :: adc_buf_t
  LEFT_HALL_U :: bool
  LEFT_HALL_V :: bool
  LEFT_HALL_W :: bool
  RIGHT_HALL_U :: bool
  RIGHT_HALL_V :: bool
  RIGHT_HALL_W :: bool
  enable :: uint8_t
  pwml :: int32_t
  pwmr :: int32_t
  ctrlModReq :: uint8_t
  buzzerFreq :: uint8_t
  buzzerPattern :: uint8_t
  buzzerCount :: uint8_t

text \<open>
  What is fixed at build time outside bldc.c: the initial and only value of
  \<open>curDC_max\<close>, the constant \<open>FOC_CTRL\<close>, the two \<open>MOTOR_..._ENA\<close> switches, the filter
  \<open>filtLowPass32\<close> applied with \<open>BAT_FILT_COEF\<close>, and the controller step, which maps
  the input record and the controller's own data to the output record and the new data.
\<close>

record 'dw config =
  curDC_max :: int16_t
  FOC_CTRL :: int
  MOTOR_LEFT_ENA :: bool
  MOTOR_RIGHT_ENA :: bool
  filtLowPass32 :: "uint16_t \<Rightarrow> int32_t \<Rightarrow> int32_t"
  BLDC_controller_step :: "ExtU \<Rightarrow> 'dw \<Rightarrow> ExtY \<times> 'dw"

record 'dw state =
  pwm_margin :: int16_t
  curL_phaA :: int16_t
  curL_phaB :: int16_t
  curL_DC :: int16_t
  curR_phaB :: int16_t
  curR_phaC :: int16_t
  curR_DC :: int16_t
  buzzerTimer :: uint32_t
  buzzerPrev :: uint8_t
  buzzerIdx :: uint8_t
  enableFin :: uint8_t
  offsetcount :: uint16_t
  offsetrlA :: int16_t
  offsetrlB :: int16_t
  offsetrrB :: int16_t
  offsetrrC :: int16_t
  offsetdcl :: int16_t
  offsetdcr :: int16_t
  batVoltage :: int16_t
  batVoltageFixdt :: int32_t
  wheel_left_ticks :: uint16_t
  wheel_right_ticks :: uint16_t
  enc_val_previous_left :: uint8_t
  enc_val_previous_right :: uint8_t
  OverrunFlag :: bool
  rtP_Left :: P
  rtU_Left :: ExtU
  rtY_Left :: ExtY
  rtDW_Left :: 'dw
  rtU_Right :: ExtU
  rtY_Right :: ExtY
  rtDW_Right :: 'dw
  LEFT_TIM :: TIM
  RIGHT_TIM :: TIM
  BUZZER_PIN :: bool
  hw_trace :: "hw_event list"

subsection \<open>The stages of the handler\<close>

definition emit :: "hw_event \<Rightarrow> 'dw state \<Rightarrow> 'dw state" where
  "emit e s = s\<lparr>hw_trace := hw_trace s @ [e]\<rparr>"

text \<open>Lines 110 to 116: one calibration sample.\<close>

definition calibrate :: "tick_input \<Rightarrow> 'dw state \<Rightarrow> 'dw state" where
  "calibrate inp s =
     s\<lparr>offsetcount := offsetcount s + 1,
       offsetrlA := word_of_int ((uint (rlA (adc_buffer inp)) + sint (offsetrlA s)) sdiv 2),
       offsetrlB := word_of_int ((uint (rlB (adc_buffer inp)) + sint (offsetrlB s)) sdiv 2),
       offsetrrB := word_of_int ((uint (rrB (adc_buffer inp)) + sint (offsetrrB s)) sdiv 2),
       offsetrrC := word_of_int ((uint (rrC (adc_buffer inp)) + sint (offsetrrC s)) sdiv 2),
       offsetdcl := word_of_int ((uint (dcl (adc_buffer inp)) + sint (offsetdcl s)) sdiv 2),
       offsetdcr := word_of_int ((uint (dcr (adc_buffer inp)) + sint (offsetdcr s)) sdiv 2)\<rparr>"

text \<open>Lines 120 to 123: the battery voltage, every 1000th value of the buzzer timer.\<close>

definition battery_filter :: "'dw config \<Rightarrow> tick_input \<Rightarrow> 'dw state \<Rightarrow> 'dw state" where
  "battery_filter cfg inp s =
     (if unat (buzzerTimer s) mod 1000 = 0
      then let y = filtLowPass32 cfg (batt1 (adc_buffer inp)) (batVoltageFixdt s)
           in s\<lparr>batVoltageFixdt := y, batVoltage := word_of_int (sint y div 2 ^ 16)\<rparr>
      else s)"

text \<open>Lines 126 to 133: the currents, offset minus sample, cast to \<open>int16_t\<close>.\<close>

definition get_currents :: "tick_input \<Rightarrow> 'dw state \<Rightarrow> 'dw state" where
  "get_currents inp s =
     s\<lparr>curL_phaA := word_of_int (sint (offsetrlA s) - uint (rlA (adc_buffer inp))),
       curL_phaB := word_of_int (sint (offsetrlB s) - uint (rlB (adc_buffer inp))),
       curL_DC := word_of_int (sint (offsetdcl s) - uint (dcl (adc_buffer inp))),
       curR_phaB := word_of_int (sint (offsetrrB s) - uint (rrB (adc_buffer inp))),
       curR_phaC := word_of_int (sint (offsetrrC s) - uint (rrC (adc_buffer inp))),
       curR_DC := word_of_int (sint (offsetdcr s) - uint (dcr (adc_buffer inp)))\<rparr>"

text \<open>Lines 137 to 147: the master-output-enable bit of each timer.\<close>

definition write_MOE :: "motor \<Rightarrow> bool \<Rightarrow> 'dw state \<Rightarrow> 'dw state" where
  "write_MOE m b s =
     emit (BDTR_write m b)
       (case m of
          Left \<Rightarrow> s\<lparr>LEFT_TIM := (LEFT_TIM s)\<lparr>BDTR_MOE := b\<rparr>\<rparr>
        | Right \<Rightarrow> s\<lparr>RIGHT_TIM := (RIGHT_TIM s)\<lparr>BDTR_MOE := b\<rparr>\<rparr>)"

definition interlock :: "'dw config \<Rightarrow> tick_input \<Rightarrow> 'dw state \<Rightarrow> 'dw state" where
  "interlock cfg inp s =
     (let s1 = (if ABS (sint (curL_DC s)) > sint (curDC_max cfg) \<or> enable inp = 0
                then write_MOE Left False s
                else write_MOE Left True s)
      in if ABS (sint (curR_DC s1)) > sint (curDC_max cfg) \<or> enable inp = 0
         then write_MOE Right False s1
         else write_MOE Right True s1)"

text \<open>Lines 150 to 164: the square wave of the buzzer.\<close>

definition buzzer :: "tick_input \<Rightarrow> 'dw state \<Rightarrow> 'dw state" where
  "buzzer inp s0 =
     (let s = s0\<lparr>buzzerTimer := buzzerTimer s0 + 1\<rparr>
      in if buzzerFreq inp \<noteq> 0
            \<and> (unat (buzzerTimer s) div 5000) mod (unat (buzzerPattern inp) + 1) = 0
         then
           let s1 = (if buzzerPrev s = 0
                     then let s' = s\<lparr>buzzerPrev := 1, buzzerIdx := buzzerIdx s + 1\<rparr>
                          in if uint (buzzerIdx s') > uint (buzzerCount inp) + 2
                             then s'\<lparr>buzzerIdx := 1\<rparr>
                             else s'
                     else s)
           in if unat (buzzerTimer s1) mod unat (buzzerFreq inp) = 0
                 \<and> (buzzerIdx s1 \<le> buzzerCount inp \<or> buzzerCount inp = 0)
              then emit BUZZER_toggle (s1\<lparr>BUZZER_PIN := \<not> BUZZER_PIN s1\<rparr>)
              else s1
         else if buzzerPrev s \<noteq> 0
         then (emit BUZZER_reset (s\<lparr>BUZZER_PIN := False\<rparr>))\<lparr>buzzerPrev := 0\<rparr>
         else s)"

text \<open>Lines 167 to 171: the margin of the selected control type.\<close>

definition adjust_pwm_margin :: "'dw config \<Rightarrow> 'dw state \<Rightarrow> 'dw state" where
  "adjust_pwm_margin cfg s =
     (if uint (z_ctrlTypSel (rtP_Left s)) = FOC_CTRL cfg
      then s\<lparr>pwm_margin := 110\<rparr>
      else s\<lparr>pwm_margin := 0\<rparr>)"

text \<open>A hall line is read as \<open>!(IDR & PIN)\<close>: 1 when the line is low.\<close>

definition hall :: "bool \<Rightarrow> uint8_t" where
  "hall line = (if line then 0 else 1)"

text \<open>\<open>(uint16_t)CLAMP(u + pwm_res / 2, pwm_margin, pwm_res-pwm_margin)\<close>, for the
  \<open>int\<close> copy \<open>u\<close> of a controller output.\<close>

definition duty :: "int16_t \<Rightarrow> int16_t \<Rightarrow> uint16_t" where
  "duty margin u =
     word_of_int (CLAMP (sint u + uint pwm_res sdiv 2) (sint margin) (uint pwm_res - sint margin))"

definition write_compare :: "motor \<Rightarrow> phase \<Rightarrow> uint16_t \<Rightarrow> 'dw state \<Rightarrow> 'dw state" where
  "write_compare m p v s =
     emit (Compare_write m p v)
       (case m of
          Left \<Rightarrow>
            (case p of
               U \<Rightarrow> s\<lparr>LEFT_TIM := (LEFT_TIM s)\<lparr>TIM_U := v\<rparr>\<rparr>
             | V \<Rightarrow> s\<lparr>LEFT_TIM := (LEFT_TIM s)\<lparr>TIM_V := v\<rparr>\<rparr>
             | W \<Rightarrow> s\<lparr>LEFT_TIM := (LEFT_TIM s)\<lparr>TIM_W := v\<rparr>\<rparr>)
        | Right \<Rightarrow>
            (case p of
               U \<Rightarrow> s\<lparr>RIGHT_TIM := (RIGHT_TIM s)\<lparr>TIM_U := v\<rparr>\<rparr>
             | V \<Rightarrow> s\<lparr>RIGHT_TIM := (RIGHT_TIM s)\<lparr>TIM_V := v\<rparr>\<rparr>
             | W \<Rightarrow> s\<lparr>RIGHT_TIM := (RIGHT_TIM s)\<lparr>TIM_W := v\<rparr>\<rparr>))"

text \<open>Lines 220 and 221: the raw 3-bit code, and its position in the table.\<close>

definition hall_position :: "uint8_t \<Rightarrow> uint8_t \<Rightarrow> uint8_t \<Rightarrow> uint8_t option" where
  "hall_position hall_u hall_v hall_w =
     array_read vec_hallToPos_Value (unat (push_bit 2 hall_u + push_bit 1 hall_v + hall_w))"

text \<open>Lines 229 to 231: the three compare registers of a motor.\<close>

definition apply_commands ::
    "motor \<Rightarrow> int16_t \<Rightarrow> int16_t \<Rightarrow> int16_t \<Rightarrow> 'dw state \<Rightarrow> 'dw state" where
  "apply_commands m u v w s =
     write_compare m W (duty (pwm_margin s) w)
       (write_compare m V (duty (pwm_margin s) v)
         (write_compare m U (duty (pwm_margin s) u) s))"

text \<open>Lines 190 to 231: the left motor.\<close>

definition set_inputs_left :: "tick_input \<Rightarrow> 'dw state \<Rightarrow> 'dw state" where
  "set_inputs_left inp s =
     s\<lparr>rtU_Left := (rtU_Left s)\<lparr>
         b_motEna := enableFin s,
         z_ctrlModReq := ctrlModReq inp,
         r_inpTgt := word_of_int (sint (pwml inp)),
         b_hallA := hall (LEFT_HALL_U inp),
         b_hallB := hall (LEFT_HALL_V inp),
         b_hallC := hall (LEFT_HALL_W inp),
         i_phaAB := curL_phaA s,
         i_phaBC := curL_phaB s,
         i_DCLink := curL_DC s\<rparr>\<rparr>"

definition step_left :: "'dw config \<Rightarrow> 'dw state \<Rightarrow> 'dw state" where
  "step_left cfg s =
     (if MOTOR_LEFT_ENA cfg
      then let (y, dw) = BLDC_controller_step cfg (rtU_Left s) (rtDW_Left s)
           in emit (Controller_step Left) (s\<lparr>rtY_Left := y, rtDW_Left := dw\<rparr>)
      else s)"

definition odometry_left :: "tick_input \<Rightarrow> 'dw state \<Rightarrow> 'dw state option" where
  "odometry_left inp s =
     do {
       encoder_left \<leftarrow>
         hall_position (hall (LEFT_HALL_U inp)) (hall (LEFT_HALL_V inp)) (hall (LEFT_HALL_W inp));
       d \<leftarrow> calc_encoder_ticks (enc_val_previous_left s) encoder_left;
       ticks \<leftarrow> clamp_module_max (word_of_int (uint (wheel_left_ticks s) + sint d)) 9000;
       Some (s\<lparr>wheel_left_ticks := ticks, enc_val_previous_left := encoder_left\<rparr>)
     }"

definition motor_left :: "'dw config \<Rightarrow> tick_input \<Rightarrow> 'dw state \<Rightarrow> 'dw state option" where
  "motor_left cfg inp s0 =
     (let s1 = step_left cfg (set_inputs_left inp s0);
          ul = DC_phaA (rtY_Left s1);
          vl = DC_phaB (rtY_Left s1);
          wl = DC_phaC (rtY_Left s1)
      in do {
           s2 \<leftarrow> odometry_left inp s1;
           Some (apply_commands Left ul vl wl s2)
         })"

text \<open>Lines 237 to 277: the right motor; its odometry subtracts the delta.\<close>

definition set_inputs_right :: "tick_input \<Rightarrow> 'dw state \<Rightarrow> 'dw state" where
  "set_inputs_right inp s =
     s\<lparr>rtU_Right := (rtU_Right s)\<lparr>
         b_motEna := enableFin s,
         z_ctrlModReq := ctrlModReq inp,
         r_inpTgt := word_of_int (sint (pwmr inp)),
         b_hallA := hall (RIGHT_HALL_U inp),
         b_hallB := hall (RIGHT_HALL_V inp),
         b_hallC := hall (RIGHT_HALL_W inp),
         i_phaAB := curR_phaB s,
         i_phaBC := curR_phaC s,
         i_DCLink := curR_DC s\<rparr>\<rparr>"

definition step_right :: "'dw config \<Rightarrow> 'dw state \<Rightarrow> 'dw state" where
  "step_right cfg s =
     (if MOTOR_RIGHT_ENA cfg
      then let (y, dw) = BLDC_controller_step cfg (rtU_Right s) (rtDW_Right s)
           in emit (Controller_step Right) (s\<lparr>rtY_Right := y, rtDW_Right := dw\<rparr>)
      else s)"

definition odometry_right :: "tick_input \<Rightarrow> 'dw state \<Rightarrow> 'dw state option" where
  "odometry_right inp s =
     do {
       encoder_right \<leftarrow>
         hall_position (hall (RIGHT_HALL_U inp)) (hall (RIGHT_HALL_V inp)) (hall (RIGHT_HALL_W inp));
       d \<leftarrow> calc_encoder_ticks (enc_val_previous_right s) encoder_right;
       ticks \<leftarrow> clamp_module_max (word_of_int (uint (wheel_right_ticks s) - sint d)) 9000;
       Some (s\<lparr>wheel_right_ticks := ticks, enc_val_previous_right := encoder_right\<rparr>)
     }"

definition motor_right :: "'dw config \<Rightarrow> tick_input \<Rightarrow> 'dw state \<Rightarrow> 'dw state option" where
  "motor_right cfg inp s0 =
     (let s1 = step_right cfg (set_inputs_right inp s0);
          ur = DC_phaA (rtY_Right s1);
          vr = DC_phaB (rtY_Right s1);
          wr = DC_phaC (rtY_Right s1)
      in do {
           s2 \<leftarrow> odometry_right inp s1;
           Some (apply_commands Right ur vr wr s2)
         })"

text \<open>Line 186: \<open>enableFin = enable && !rtY_Left.z_errCode && !rtY_Right.z_errCode\<close>.\<close>

definition set_enableFin :: "tick_input \<Rightarrow> 'dw state \<Rightarrow> 'dw state" where
  "set_enableFin inp s =
     s\<lparr>enableFin :=
         (if enable inp \<noteq> 0 \<and> z_errCode (rtY_Left s) = 0 \<and> z_errCode (rtY_Right s) = 0
          then 1 else 0)\<rparr>"

text \<open>Lines 175 to 281: the motor control section behind the overrun check.\<close>

definition motor_control :: "'dw config \<Rightarrow> tick_input \<Rightarrow> 'dw state \<Rightarrow> 'dw state option" where
  "motor_control cfg inp s =
     (if OverrunFlag s then Some s
      else do {
        sl \<leftarrow> motor_left cfg inp (set_enableFin inp (s\<lparr>OverrunFlag := True\<rparr>));
        sr \<leftarrow> motor_right cfg inp sl;
        Some (sr\<lparr>OverrunFlag := False\<rparr>)
      })"

text \<open>Lines 120 to 171: what runs on every tick after calibration, ahead of the overrun
  check.\<close>

definition housekeeping :: "'dw config \<Rightarrow> tick_input \<Rightarrow> 'dw state \<Rightarrow> 'dw state" where
  "housekeeping cfg inp s =
     adjust_pwm_margin cfg (buzzer inp (interlock cfg inp (get_currents inp
       (battery_filter cfg inp s))))"

text \<open>The handler: a tick.\<close>

definition DMA1_Channel1_IRQHandler ::
    "'dw config \<Rightarrow> tick_input \<Rightarrow> 'dw state \<Rightarrow> 'dw state option" where
  "DMA1_Channel1_IRQHandler cfg inp s0 =
     (let s = emit DMA_IFCR_write s0
      in if offsetcount s < 2000
         then Some (calibrate inp s)
         else motor_control cfg inp (housekeeping cfg inp s))"

text \<open>A run of ticks, one input per tick.\<close>

fun run :: "'dw config \<Rightarrow> 'dw state \<Rightarrow> tick_input list \<Rightarrow> 'dw state option" where
  "run cfg s [] = Some s"
| "run cfg s (inp # inps) =
     (case DMA1_Channel1_IRQHandler cfg inp s of
        None \<Rightarrow> None
      | Some s' \<Rightarrow> run cfg s' inps)"

subsection \<open>The variables of each section\<close>

text \<open>The variables that only the calibration (lines 109 to 118) writes.\<close>

definition calibration_vars ::
    "'dw state \<Rightarrow> uint16_t \<times> int16_t \<times> int16_t \<times> int16_t \<times> int16_t \<times> int16_t \<times> int16_t" where
  "calibration_vars s =
     (offsetcount s, offsetrlA s, offsetrlB s, offsetrrB s, offsetrrC s, offsetdcl s,
      offsetdcr s)"

text \<open>The variables and register bits that only lines 120 to 171 write, and the
  controller parameters, which the handler never writes.\<close>

definition housekeeping_vars ::
    "'dw state \<Rightarrow>
       (int16_t \<times> int16_t \<times> int16_t \<times> int16_t \<times> int16_t \<times> int16_t \<times> int16_t)
       \<times> (uint32_t \<times> uint8_t \<times> uint8_t \<times> bool)
       \<times> (int16_t \<times> int32_t)
       \<times> (bool \<times> bool)
       \<times> P" where
  "housekeeping_vars s =
     ((pwm_margin s, curL_phaA s, curL_phaB s, curL_DC s, curR_phaB s, curR_phaC s, curR_DC s),
      (buzzerTimer s, buzzerPrev s, buzzerIdx s, BUZZER_PIN s),
      (batVoltage s, batVoltageFixdt s),
      (BDTR_MOE (LEFT_TIM s), BDTR_MOE (RIGHT_TIM s)),
      rtP_Left s)"

text \<open>The variables and registers that only the motor control section (lines 175 to
  281) writes.\<close>

definition motor_vars ::
    "'dw state \<Rightarrow>
       (bool \<times> uint8_t)
       \<times> (ExtU \<times> ExtY \<times> 'dw \<times> uint16_t \<times> uint8_t \<times> uint16_t \<times> uint16_t \<times> uint16_t)
       \<times> (ExtU \<times> ExtY \<times> 'dw \<times> uint16_t \<times> uint8_t \<times> uint16_t \<times> uint16_t \<times> uint16_t)" where
  "motor_vars s =
     ((OverrunFlag s, enableFin s),
      (rtU_Left s, rtY_Left s, rtDW_Left s, wheel_left_ticks s, enc_val_previous_left s,
       TIM_U (LEFT_TIM s), TIM_V (LEFT_TIM s), TIM_W (LEFT_TIM s)),
      (rtU_Right s, rtY_Right s, rtDW_Right s, wheel_right_ticks s, enc_val_previous_right s,
       TIM_U (RIGHT_TIM s), TIM_V (RIGHT_TIM s), TIM_W (RIGHT_TIM s)))"

subsection \<open>Reading the trace\<close>

text \<open>The events that a tick from \<open>s\<close> to \<open>s'\<close> appended.\<close>

definition tick_events :: "'dw state \<Rightarrow> 'dw state \<Rightarrow> hw_event list" where
  "tick_events s s' = drop (length (hw_trace s)) (hw_trace s')"

fun is_interlock :: "hw_event \<Rightarrow> bool" where
  "is_interlock (BDTR_write m b) = True"
| "is_interlock e = False"

fun is_actuation :: "hw_event \<Rightarrow> bool" where
  "is_actuation (Controller_step m) = True"
| "is_actuation (Compare_write m p v) = True"
| "is_actuation e = False"

subsection \<open>The duty window\<close>

text \<open>A compare value inside \<open>[margin, pwm_res - margin]\<close>.\<close>

definition in_window :: "int16_t \<Rightarrow> uint16_t \<Rightarrow> bool" where
  "in_window margin v \<longleftrightarrow> sint margin \<le> uint v \<and> uint v \<le> uint pwm_res - sint margin"

text \<open>A compare value that is the controller output \<open>u\<close>, moved by \<open>pwm_res / 2\<close> and
  clamped into the window.\<close>

definition clamped_duty :: "int16_t \<Rightarrow> int16_t \<Rightarrow> uint16_t \<Rightarrow> bool" where
  "clamped_duty margin u v \<longleftrightarrow>
     uint v = CLAMP (sint u + uint pwm_res sdiv 2) (sint margin) (uint pwm_res - sint margin)
     \<and> in_window margin v"

fun clamped_write :: "int16_t \<Rightarrow> hw_event \<Rightarrow> bool" where
  "clamped_write margin (Compare_write m p v) = in_window margin v"
| "clamped_write margin e = True"

subsection \<open>A concrete configuration, state and inputs\<close>

text \<open>A controller double with fixed outputs, a configuration around it, a calibrated
  state and two inputs, on which the theorems below are instantiated.\<close>

definition test_controller :: "ExtU \<Rightarrow> unit \<Rightarrow> ExtY \<times> unit" where
  "test_controller u dw =
     (\<lparr>DC_phaA = 300, DC_phaB = - 1200, DC_phaC = 1500, z_errCode = 0, n_mot = 0,
       a_elecAngle = 0\<rparr>, dw)"

definition test_config :: "unit config" where
  "test_config =
     \<lparr>curDC_max = 850, FOC_CTRL = 2, MOTOR_LEFT_ENA = True, MOTOR_RIGHT_ENA = True,
      filtLowPass32 = (\<lambda>u y. y), BLDC_controller_step = test_controller\<rparr>"

definition test_input :: tick_input where
  "test_input =
     \<lparr>adc_buffer = \<lparr>rlA = 2000, rlB = 2000, rrB = 2000, rrC = 2000, dcl = 2000, dcr = 2000,
                     batt1 = 1500\<rparr>,
      LEFT_HALL_U = True, LEFT_HALL_V = False, LEFT_HALL_W = False,
      RIGHT_HALL_U = True, RIGHT_HALL_V = False, RIGHT_HALL_W = False,
      enable = 1, pwml = 0, pwmr = 0, ctrlModReq = 1,
      buzzerFreq = 0, buzzerPattern = 0, buzzerCount = 0\<rparr>"

definition noisy_input :: tick_input where
  "noisy_input =
     test_input\<lparr>adc_buffer :=
       \<lparr>rlA = 4095, rlB = 0, rrB = 65535, rrC = 17, dcl = 1150, dcr = 3000, batt1 = 1400\<rparr>\<rparr>"

definition test_ExtU :: ExtU where
  "test_ExtU =
     \<lparr>b_motEna = 0, z_ctrlModReq = 0, r_inpTgt = 0, b_hallA = 0, b_hallB = 0, b_hallC = 0,
      i_phaAB = 0, i_phaBC = 0, i_DCLink = 0, a_mechAngle = 0\<rparr>"

definition test_ExtY :: ExtY where
  "test_ExtY =
     \<lparr>DC_phaA = 0, DC_phaB = 0, DC_phaC = 0, z_errCode = 0, n_mot = 0, a_elecAngle = 0\<rparr>"

definition test_state :: "unit state" where
  "test_state =
     \<lparr>pwm_margin = 0,
      curL_phaA = 0, curL_phaB = 0, curL_DC = 0, curR_phaB = 0, curR_phaC = 0, curR_DC = 0,
      buzzerTimer = 1, buzzerPrev = 0, buzzerIdx = 0,
      enableFin = 0,
      offsetcount = 2000,
      offsetrlA = 2000, offsetrlB = 2000, offsetrrB = 2000, offsetrrC = 2000,
      offsetdcl = 2000, offsetdcr = 2000,
      batVoltage = 1500, batVoltageFixdt = 98304000,
      wheel_left_ticks = 0, wheel_right_ticks = 0,
      enc_val_previous_left = 0, enc_val_previous_right = 0,
      OverrunFlag = False,
      rtP_Left = \<lparr>z_ctrlTypSel = 2\<rparr>,
      rtU_Left = test_ExtU, rtY_Left = test_ExtY, rtDW_Left = (),
      rtU_Right = test_ExtU, rtY_Right = test_ExtY, rtDW_Right = (),
      LEFT_TIM = \<lparr>BDTR_MOE = False, TIM_U = 0, TIM_V = 0, TIM_W = 0\<rparr>,
      RIGHT_TIM = \<lparr>BDTR_MOE = False, TIM_U = 0, TIM_V = 0, TIM_W = 0\<rparr>,
      BUZZER_PIN = False,
      hw_trace = []\<rparr>"

section \<open>Properties\<close>

subsection \<open>Arithmetic of the conversions\<close>

lemma smod_nonneg: "0 \<le> a \<Longrightarrow> 0 < m \<Longrightarrow> (a::int) smod m = a mod m"
  by (simp add: smod_int_alt_def sgn_if)

lemma smod_neg: "a < 0 \<Longrightarrow> 0 < m \<Longrightarrow> (a::int) smod m = - ((- a) mod m)"
  by (simp add: smod_int_alt_def sgn_if)

lemma smod_wrap:
  assumes "0 < m"
  shows "((a smod m) + m) smod m = (a::int) mod m"
proof (cases "0 \<le> a")
  case True
  have "0 \<le> a mod m + m" using assms by (simp add: add_nonneg_nonneg)
  then show ?thesis using True assms by (simp add: smod_nonneg)
next
  case False
  define r where "r = (- a) mod m"
  have r: "0 \<le> r" "r < m" using assms by (simp_all add: r_def)
  have "a smod m = - r" using False assms by (simp add: smod_neg r_def)
  moreover have "(- r + m) smod m = (- r + m) mod m" using r assms by (simp add: smod_nonneg)
  moreover have "(- r + m) mod m = (- r) mod m" by simp
  moreover have "(- r) mod m = a mod m" unfolding r_def by (simp add: mod_minus_eq)
  ultimately show ?thesis by simp
qed

lemma uint_word_of_int_16: "0 \<le> x \<Longrightarrow> x < 65536 \<Longrightarrow> uint (word_of_int x :: 16 word) = x"
  by (simp add: uint_word_of_int take_bit_int_eq_self)

lemma sint_word_of_int_16: "- 32768 \<le> x \<Longrightarrow> x < 32768 \<Longrightarrow> sint (word_of_int x :: 16 word) = x"
  by (simp add: int_word_sint)

lemma uint_lt_16: "uint (w :: 16 word) < 65536"
  using uint_bounded [of w] by simp

lemma uint_lt_8: "uint (w :: 8 word) < 256"
  using uint_bounded [of w] by simp

subsection \<open>The odometry helpers\<close>

lemma clamp_module_max_eq:
  assumes "mx \<noteq> 0"
  shows "clamp_module_max val mx = Some (word_of_int (sint val mod uint mx))"
proof -
  have "0 < uint mx" using assms uint_nonnegative [of mx] uint_0_iff [of mx] by linarith
  then show ?thesis using assms by (simp add: clamp_module_max_def smod_wrap)
qed

lemma clamp_module_max_9000:
  "clamp_module_max val 9000 = Some (word_of_int (sint val mod 9000))"
  using clamp_module_max_eq [of 9000 val] by simp

lemma calc_encoder_ticks_eq:
  "calc_encoder_ticks p c = Some (enc_vals_table ! nat ((uint p - uint c) mod 6))"
proof -
  let ?d = "uint p - uint c"
  have "- 32768 \<le> ?d" "?d < 32768"
    using uint_lt_8 [of p] uint_lt_8 [of c] uint_nonnegative [of p] uint_nonnegative [of c]
    by linarith+
  then have sd: "sint (word_of_int ?d :: 16 word) = ?d" by (rule sint_word_of_int_16)
  have m: "0 \<le> ?d mod 6" "?d mod 6 < 6" by simp_all
  then have "uint (word_of_int (?d mod 6) :: 16 word) = ?d mod 6"
    by (intro uint_word_of_int_16) linarith+
  then have un: "unat (word_of_int (?d mod 6) :: 16 word) = nat (?d mod 6)"
    by (simp add: unat_eq_nat_uint)
  have lt: "nat (?d mod 6) < 6" using m by linarith
  have "clamp_module_max (word_of_int ?d) 6
          = Some (word_of_int (sint (word_of_int ?d :: 16 word) mod uint (6 :: 16 word)))"
    by (rule clamp_module_max_eq) simp
  then have c: "clamp_module_max (word_of_int ?d) 6 = Some (word_of_int (?d mod 6))"
    unfolding sd by simp
  have "calc_encoder_ticks p c
          = array_read enc_vals_table (unat (word_of_int (?d mod 6) :: 16 word))"
    unfolding calc_encoder_ticks_def c by simp
  also have "\<dots> = array_read enc_vals_table (nat (?d mod 6))"
    unfolding un ..
  also have "\<dots> = Some (enc_vals_table ! nat (?d mod 6))"
    using lt by (simp add: array_read_def enc_vals_table_def)
  finally show ?thesis .
qed

lemma enc_vals_table_range:
  "i < 6 \<Longrightarrow> sint (enc_vals_table ! i) \<in> {- 2, - 1, 0, 1, 2}"
proof -
  assume "i < 6"
  then have "i \<in> {0, 1, 2, 3, 4, 5}" by auto
  then show ?thesis by (auto simp: enc_vals_table_def)
qed

lemma calc_encoder_ticks_total:
  "\<exists>d. calc_encoder_ticks p c = Some d \<and> sint d \<in> {- 2, - 1, 0, 1, 2}"
proof -
  have "nat ((uint p - uint c) mod 6) < 6" by simp
  then show ?thesis using calc_encoder_ticks_eq [of p c] enc_vals_table_range by blast
qed

lemma hall_position_total:
  "\<exists>enc. hall_position (hall a) (hall b) (hall c) = Some enc \<and> enc \<le> 5"
  by (cases a; cases b; cases c)
     (simp_all add: hall_position_def hall_def array_read_def vec_hallToPos_Value_def)

subsection \<open>What each stage leaves alone\<close>

lemma emit_frame [simp]:
  "calibration_vars (emit e s) = calibration_vars s"
  "housekeeping_vars (emit e s) = housekeeping_vars s"
  "motor_vars (emit e s) = motor_vars s"
  "hw_trace (emit e s) = hw_trace s @ [e]"
  by (simp_all add: emit_def calibration_vars_def housekeeping_vars_def motor_vars_def)

lemma calibrate_frame [simp]:
  "housekeeping_vars (calibrate inp s) = housekeeping_vars s"
  "motor_vars (calibrate inp s) = motor_vars s"
  "hw_trace (calibrate inp s) = hw_trace s"
  by (simp_all add: calibrate_def housekeeping_vars_def motor_vars_def)

lemma battery_filter_frame [simp]:
  "calibration_vars (battery_filter cfg inp s) = calibration_vars s"
  "motor_vars (battery_filter cfg inp s) = motor_vars s"
  "hw_trace (battery_filter cfg inp s) = hw_trace s"
  by (simp_all add: battery_filter_def Let_def calibration_vars_def motor_vars_def)

lemma get_currents_frame [simp]:
  "calibration_vars (get_currents inp s) = calibration_vars s"
  "motor_vars (get_currents inp s) = motor_vars s"
  "hw_trace (get_currents inp s) = hw_trace s"
  by (simp_all add: get_currents_def calibration_vars_def motor_vars_def)

lemma write_MOE_frame [simp]:
  "calibration_vars (write_MOE m b s) = calibration_vars s"
  "motor_vars (write_MOE m b s) = motor_vars s"
  "hw_trace (write_MOE m b s) = hw_trace s @ [BDTR_write m b]"
  "curL_DC (write_MOE m b s) = curL_DC s"
  "curR_DC (write_MOE m b s) = curR_DC s"
  by (cases m; simp add: write_MOE_def emit_def calibration_vars_def motor_vars_def)+

lemma write_MOE_value [simp]:
  "BDTR_MOE (LEFT_TIM (write_MOE m b s)) = (if m = Left then b else BDTR_MOE (LEFT_TIM s))"
  "BDTR_MOE (RIGHT_TIM (write_MOE m b s)) = (if m = Right then b else BDTR_MOE (RIGHT_TIM s))"
  by (cases m; simp add: write_MOE_def emit_def)+

lemma interlock_frame [simp]:
  "calibration_vars (interlock cfg inp s) = calibration_vars s"
  "motor_vars (interlock cfg inp s) = motor_vars s"
  "curL_DC (interlock cfg inp s) = curL_DC s"
  "curR_DC (interlock cfg inp s) = curR_DC s"
  by (simp_all add: interlock_def Let_def)

lemma interlock_value:
  "BDTR_MOE (LEFT_TIM (interlock cfg inp s))
     \<longleftrightarrow> \<not> (ABS (sint (curL_DC s)) > sint (curDC_max cfg) \<or> enable inp = 0)"
  "BDTR_MOE (RIGHT_TIM (interlock cfg inp s))
     \<longleftrightarrow> \<not> (ABS (sint (curR_DC s)) > sint (curDC_max cfg) \<or> enable inp = 0)"
  "hw_trace (interlock cfg inp s) = hw_trace s @
     [BDTR_write Left (\<not> (ABS (sint (curL_DC s)) > sint (curDC_max cfg) \<or> enable inp = 0)),
      BDTR_write Right (\<not> (ABS (sint (curR_DC s)) > sint (curDC_max cfg) \<or> enable inp = 0))]"
  by (simp_all add: interlock_def Let_def)

lemma buzzer_frame [simp]:
  "calibration_vars (buzzer inp s) = calibration_vars s"
  "motor_vars (buzzer inp s) = motor_vars s"
  "curL_DC (buzzer inp s) = curL_DC s"
  "curR_DC (buzzer inp s) = curR_DC s"
  "BDTR_MOE (LEFT_TIM (buzzer inp s)) = BDTR_MOE (LEFT_TIM s)"
  "BDTR_MOE (RIGHT_TIM (buzzer inp s)) = BDTR_MOE (RIGHT_TIM s)"
  "rtP_Left (buzzer inp s) = rtP_Left s"
  "buzzerTimer (buzzer inp s) = buzzerTimer s + 1"
  by (simp_all add: buzzer_def Let_def emit_def calibration_vars_def motor_vars_def)

lemma buzzer_trace:
  "\<exists>bz. hw_trace (buzzer inp s) = hw_trace s @ bz \<and> set bz \<subseteq> {BUZZER_toggle, BUZZER_reset}"
  by (simp add: buzzer_def Let_def emit_def)

lemma adjust_pwm_margin_frame [simp]:
  "calibration_vars (adjust_pwm_margin cfg s) = calibration_vars s"
  "motor_vars (adjust_pwm_margin cfg s) = motor_vars s"
  "hw_trace (adjust_pwm_margin cfg s) = hw_trace s"
  "curL_DC (adjust_pwm_margin cfg s) = curL_DC s"
  "curR_DC (adjust_pwm_margin cfg s) = curR_DC s"
  "BDTR_MOE (LEFT_TIM (adjust_pwm_margin cfg s)) = BDTR_MOE (LEFT_TIM s)"
  "BDTR_MOE (RIGHT_TIM (adjust_pwm_margin cfg s)) = BDTR_MOE (RIGHT_TIM s)"
  "rtP_Left (adjust_pwm_margin cfg s) = rtP_Left s"
  "pwm_margin (adjust_pwm_margin cfg s)
     = (if uint (z_ctrlTypSel (rtP_Left s)) = FOC_CTRL cfg then 110 else 0)"
  by (simp_all add: adjust_pwm_margin_def calibration_vars_def motor_vars_def)

subsection \<open>Lines 120 to 171 as a whole\<close>

lemma housekeeping_frame [simp]:
  "calibration_vars (housekeeping cfg inp s) = calibration_vars s"
  "motor_vars (housekeeping cfg inp s) = motor_vars s"
  by (simp_all add: housekeeping_def)

lemma housekeeping_currents:
  "curL_DC (housekeeping cfg inp s) = word_of_int (sint (offsetdcl s) - uint (dcl (adc_buffer inp)))"
  "curR_DC (housekeeping cfg inp s) = word_of_int (sint (offsetdcr s) - uint (dcr (adc_buffer inp)))"
  by (simp_all add: housekeeping_def get_currents_def battery_filter_def Let_def)

lemma housekeeping_MOE:
  "BDTR_MOE (LEFT_TIM (housekeeping cfg inp s))
     \<longleftrightarrow> \<not> (ABS (sint (curL_DC (housekeeping cfg inp s))) > sint (curDC_max cfg) \<or> enable inp = 0)"
  "BDTR_MOE (RIGHT_TIM (housekeeping cfg inp s))
     \<longleftrightarrow> \<not> (ABS (sint (curR_DC (housekeeping cfg inp s))) > sint (curDC_max cfg) \<or> enable inp = 0)"
  by (simp_all add: housekeeping_def interlock_value)

lemma housekeeping_margin:
  "pwm_margin (housekeeping cfg inp s)
     = (if uint (z_ctrlTypSel (rtP_Left s)) = FOC_CTRL cfg then 110 else 0)"
  by (simp add: housekeeping_def interlock_def get_currents_def battery_filter_def Let_def write_MOE_def emit_def)

lemma housekeeping_timer:
  "buzzerTimer (housekeeping cfg inp s) = buzzerTimer s + 1"
  apply (simp add: housekeeping_def adjust_pwm_margin_def)
  apply (simp add: interlock_def get_currents_def battery_filter_def Let_def write_MOE_def emit_def)
  done

lemma housekeeping_trace:
  "\<exists>bz. hw_trace (housekeeping cfg inp s) = hw_trace s @
       [BDTR_write Left (BDTR_MOE (LEFT_TIM (housekeeping cfg inp s))),
        BDTR_write Right (BDTR_MOE (RIGHT_TIM (housekeeping cfg inp s)))] @ bz
     \<and> set bz \<subseteq> {BUZZER_toggle, BUZZER_reset}"
proof -
  let ?s = "interlock cfg inp (get_currents inp (battery_filter cfg inp s))"
  obtain bz where bz: "hw_trace (buzzer inp ?s) = hw_trace ?s @ bz"
      "set bz \<subseteq> {BUZZER_toggle, BUZZER_reset}"
    using buzzer_trace [of inp ?s] by blast
  have "hw_trace (housekeeping cfg inp s) = hw_trace ?s @ bz"
    using bz by (simp add: housekeeping_def)
  then show ?thesis
    using bz(2) by (simp add: housekeeping_def interlock_value)
qed

subsection \<open>The motor control section\<close>

lemma odometry_left_eq:
  assumes "hall_position (hall (LEFT_HALL_U inp)) (hall (LEFT_HALL_V inp))
             (hall (LEFT_HALL_W inp)) = Some enc"
    and "calc_encoder_ticks (enc_val_previous_left s) enc = Some d"
  shows "odometry_left inp s =
           Some (s\<lparr>wheel_left_ticks :=
                     word_of_int (sint (word_of_int (uint (wheel_left_ticks s) + sint d) :: 16 word)
                       mod 9000),
                   enc_val_previous_left := enc\<rparr>)"
  using assms by (simp add: odometry_left_def clamp_module_max_9000)

lemma odometry_right_eq:
  assumes "hall_position (hall (RIGHT_HALL_U inp)) (hall (RIGHT_HALL_V inp))
             (hall (RIGHT_HALL_W inp)) = Some enc"
    and "calc_encoder_ticks (enc_val_previous_right s) enc = Some d"
  shows "odometry_right inp s =
           Some (s\<lparr>wheel_right_ticks :=
                     word_of_int (sint (word_of_int (uint (wheel_right_ticks s) - sint d) :: 16 word)
                       mod 9000),
                   enc_val_previous_right := enc\<rparr>)"
  using assms by (simp add: odometry_right_def clamp_module_max_9000)

lemma step_left_frame [simp]:
  "calibration_vars (step_left cfg s) = calibration_vars s"
  "housekeeping_vars (step_left cfg s) = housekeeping_vars s"
  "snd (snd (motor_vars (step_left cfg s))) = snd (snd (motor_vars s))"
  "fst (motor_vars (step_left cfg s)) = fst (motor_vars s)"
  "rtU_Left (step_left cfg s) = rtU_Left s"
  "wheel_left_ticks (step_left cfg s) = wheel_left_ticks s"
  "enc_val_previous_left (step_left cfg s) = enc_val_previous_left s"
  "LEFT_TIM (step_left cfg s) = LEFT_TIM s"
  "pwm_margin (step_left cfg s) = pwm_margin s"
  by (simp_all add: step_left_def emit_def calibration_vars_def housekeeping_vars_def
        motor_vars_def split: prod.splits)

lemma step_left_value:
  "rtY_Left (step_left cfg s) =
     (if MOTOR_LEFT_ENA cfg then fst (BLDC_controller_step cfg (rtU_Left s) (rtDW_Left s))
      else rtY_Left s)"
  "rtDW_Left (step_left cfg s) =
     (if MOTOR_LEFT_ENA cfg then snd (BLDC_controller_step cfg (rtU_Left s) (rtDW_Left s))
      else rtDW_Left s)"
  "hw_trace (step_left cfg s) =
     hw_trace s @ (if MOTOR_LEFT_ENA cfg then [Controller_step Left] else [])"
  by (simp_all add: step_left_def emit_def split: prod.splits)

lemma step_right_frame [simp]:
  "calibration_vars (step_right cfg s) = calibration_vars s"
  "housekeeping_vars (step_right cfg s) = housekeeping_vars s"
  "fst (snd (motor_vars (step_right cfg s))) = fst (snd (motor_vars s))"
  "fst (motor_vars (step_right cfg s)) = fst (motor_vars s)"
  "rtU_Right (step_right cfg s) = rtU_Right s"
  "wheel_right_ticks (step_right cfg s) = wheel_right_ticks s"
  "enc_val_previous_right (step_right cfg s) = enc_val_previous_right s"
  "RIGHT_TIM (step_right cfg s) = RIGHT_TIM s"
  "pwm_margin (step_right cfg s) = pwm_margin s"
  by (simp_all add: step_right_def emit_def calibration_vars_def housekeeping_vars_def
        motor_vars_def split: prod.splits)

lemma step_right_value:
  "rtY_Right (step_right cfg s) =
     (if MOTOR_RIGHT_ENA cfg then fst (BLDC_controller_step cfg (rtU_Right s) (rtDW_Right s))
      else rtY_Right s)"
  "rtDW_Right (step_right cfg s) =
     (if MOTOR_RIGHT_ENA cfg then snd (BLDC_controller_step cfg (rtU_Right s) (rtDW_Right s))
      else rtDW_Right s)"
  "hw_trace (step_right cfg s) =
     hw_trace s @ (if MOTOR_RIGHT_ENA cfg then [Controller_step Right] else [])"
  by (simp_all add: step_right_def emit_def split: prod.splits)

lemma set_inputs_left_frame [simp]:
  "calibration_vars (set_inputs_left inp s) = calibration_vars s"
  "housekeeping_vars (set_inputs_left inp s) = housekeeping_vars s"
  "snd (snd (motor_vars (set_inputs_left inp s))) = snd (snd (motor_vars s))"
  "fst (motor_vars (set_inputs_left inp s)) = fst (motor_vars s)"
  "rtY_Left (set_inputs_left inp s) = rtY_Left s"
  "rtDW_Left (set_inputs_left inp s) = rtDW_Left s"
  "wheel_left_ticks (set_inputs_left inp s) = wheel_left_ticks s"
  "enc_val_previous_left (set_inputs_left inp s) = enc_val_previous_left s"
  "LEFT_TIM (set_inputs_left inp s) = LEFT_TIM s"
  "pwm_margin (set_inputs_left inp s) = pwm_margin s"
  "hw_trace (set_inputs_left inp s) = hw_trace s"
  "b_motEna (rtU_Left (set_inputs_left inp s)) = enableFin s"
  by (simp_all add: set_inputs_left_def calibration_vars_def housekeeping_vars_def
        motor_vars_def)

lemma set_inputs_right_frame [simp]:
  "calibration_vars (set_inputs_right inp s) = calibration_vars s"
  "housekeeping_vars (set_inputs_right inp s) = housekeeping_vars s"
  "fst (snd (motor_vars (set_inputs_right inp s))) = fst (snd (motor_vars s))"
  "fst (motor_vars (set_inputs_right inp s)) = fst (motor_vars s)"
  "rtY_Right (set_inputs_right inp s) = rtY_Right s"
  "rtDW_Right (set_inputs_right inp s) = rtDW_Right s"
  "wheel_right_ticks (set_inputs_right inp s) = wheel_right_ticks s"
  "enc_val_previous_right (set_inputs_right inp s) = enc_val_previous_right s"
  "RIGHT_TIM (set_inputs_right inp s) = RIGHT_TIM s"
  "pwm_margin (set_inputs_right inp s) = pwm_margin s"
  "hw_trace (set_inputs_right inp s) = hw_trace s"
  "b_motEna (rtU_Right (set_inputs_right inp s)) = enableFin s"
  by (simp_all add: set_inputs_right_def calibration_vars_def housekeeping_vars_def
        motor_vars_def)

lemma apply_commands_left:
  "calibration_vars (apply_commands Left u v w s) = calibration_vars s"
  "housekeeping_vars (apply_commands Left u v w s) = housekeeping_vars s"
  "snd (snd (motor_vars (apply_commands Left u v w s))) = snd (snd (motor_vars s))"
  "fst (motor_vars (apply_commands Left u v w s)) = fst (motor_vars s)"
  "rtU_Left (apply_commands Left u v w s) = rtU_Left s"
  "rtY_Left (apply_commands Left u v w s) = rtY_Left s"
  "rtDW_Left (apply_commands Left u v w s) = rtDW_Left s"
  "wheel_left_ticks (apply_commands Left u v w s) = wheel_left_ticks s"
  "enc_val_previous_left (apply_commands Left u v w s) = enc_val_previous_left s"
  "TIM_U (LEFT_TIM (apply_commands Left u v w s)) = duty (pwm_margin s) u"
  "TIM_V (LEFT_TIM (apply_commands Left u v w s)) = duty (pwm_margin s) v"
  "TIM_W (LEFT_TIM (apply_commands Left u v w s)) = duty (pwm_margin s) w"
  "hw_trace (apply_commands Left u v w s) = hw_trace s @
     [Compare_write Left U (duty (pwm_margin s) u), Compare_write Left V (duty (pwm_margin s) v),
      Compare_write Left W (duty (pwm_margin s) w)]"
  by (simp_all add: apply_commands_def write_compare_def emit_def calibration_vars_def
        housekeeping_vars_def motor_vars_def)

lemma apply_commands_right:
  "calibration_vars (apply_commands Right u v w s) = calibration_vars s"
  "housekeeping_vars (apply_commands Right u v w s) = housekeeping_vars s"
  "fst (snd (motor_vars (apply_commands Right u v w s))) = fst (snd (motor_vars s))"
  "fst (motor_vars (apply_commands Right u v w s)) = fst (motor_vars s)"
  "rtU_Right (apply_commands Right u v w s) = rtU_Right s"
  "rtY_Right (apply_commands Right u v w s) = rtY_Right s"
  "rtDW_Right (apply_commands Right u v w s) = rtDW_Right s"
  "wheel_right_ticks (apply_commands Right u v w s) = wheel_right_ticks s"
  "enc_val_previous_right (apply_commands Right u v w s) = enc_val_previous_right s"
  "TIM_U (RIGHT_TIM (apply_commands Right u v w s)) = duty (pwm_margin s) u"
  "TIM_V (RIGHT_TIM (apply_commands Right u v w s)) = duty (pwm_margin s) v"
  "TIM_W (RIGHT_TIM (apply_commands Right u v w s)) = duty (pwm_margin s) w"
  "hw_trace (apply_commands Right u v w s) = hw_trace s @
     [Compare_write Right U (duty (pwm_margin s) u), Compare_write Right V (duty (pwm_margin s) v),
      Compare_write Right W (duty (pwm_margin s) w)]"
  by (simp_all add: apply_commands_def write_compare_def emit_def calibration_vars_def
        housekeeping_vars_def motor_vars_def)

lemma odometry_left_result:
  "\<exists>s' enc d. odometry_left inp s = Some s'
     \<and> hall_position (hall (LEFT_HALL_U inp)) (hall (LEFT_HALL_V inp)) (hall (LEFT_HALL_W inp))
         = Some enc
     \<and> enc \<le> 5
     \<and> calc_encoder_ticks (enc_val_previous_left s) enc = Some d
     \<and> sint d \<in> {- 2, - 1, 0, 1, 2}
     \<and> s' = s\<lparr>wheel_left_ticks :=
                 word_of_int (sint (word_of_int (uint (wheel_left_ticks s) + sint d) :: 16 word)
                   mod 9000),
               enc_val_previous_left := enc\<rparr>"
proof -
  obtain enc where enc:
    "hall_position (hall (LEFT_HALL_U inp)) (hall (LEFT_HALL_V inp)) (hall (LEFT_HALL_W inp))
       = Some enc" "enc \<le> 5"
    using hall_position_total by blast
  obtain d where d: "calc_encoder_ticks (enc_val_previous_left s) enc = Some d"
      "sint d \<in> {- 2, - 1, 0, 1, 2}"
    using calc_encoder_ticks_total by blast
  show ?thesis
    using enc d odometry_left_eq [OF enc(1) d(1)] by blast
qed

lemma odometry_right_result:
  "\<exists>s' enc d. odometry_right inp s = Some s'
     \<and> hall_position (hall (RIGHT_HALL_U inp)) (hall (RIGHT_HALL_V inp)) (hall (RIGHT_HALL_W inp))
         = Some enc
     \<and> enc \<le> 5
     \<and> calc_encoder_ticks (enc_val_previous_right s) enc = Some d
     \<and> sint d \<in> {- 2, - 1, 0, 1, 2}
     \<and> s' = s\<lparr>wheel_right_ticks :=
                 word_of_int (sint (word_of_int (uint (wheel_right_ticks s) - sint d) :: 16 word)
                   mod 9000),
               enc_val_previous_right := enc\<rparr>"
proof -
  obtain enc where enc:
    "hall_position (hall (RIGHT_HALL_U inp)) (hall (RIGHT_HALL_V inp)) (hall (RIGHT_HALL_W inp))
       = Some enc" "enc \<le> 5"
    using hall_position_total by blast
  obtain d where d: "calc_encoder_ticks (enc_val_previous_right s) enc = Some d"
      "sint d \<in> {- 2, - 1, 0, 1, 2}"
    using calc_encoder_ticks_total by blast
  show ?thesis
    using enc d odometry_right_eq [OF enc(1) d(1)] by blast
qed

lemma odometry_left_frame:
  assumes "odometry_left inp s = Some s'"
  shows "calibration_vars s' = calibration_vars s"
    "housekeeping_vars s' = housekeeping_vars s"
    "fst (motor_vars s') = fst (motor_vars s)"
    "snd (snd (motor_vars s')) = snd (snd (motor_vars s))"
    "rtU_Left s' = rtU_Left s" "rtY_Left s' = rtY_Left s" "rtDW_Left s' = rtDW_Left s"
    "LEFT_TIM s' = LEFT_TIM s" "pwm_margin s' = pwm_margin s" "hw_trace s' = hw_trace s"
  using assms odometry_left_result [of inp s]
  by (auto simp: calibration_vars_def housekeeping_vars_def motor_vars_def)

lemma odometry_right_frame:
  assumes "odometry_right inp s = Some s'"
  shows "calibration_vars s' = calibration_vars s"
    "housekeeping_vars s' = housekeeping_vars s"
    "fst (motor_vars s') = fst (motor_vars s)"
    "fst (snd (motor_vars s')) = fst (snd (motor_vars s))"
    "rtU_Right s' = rtU_Right s" "rtY_Right s' = rtY_Right s" "rtDW_Right s' = rtDW_Right s"
    "RIGHT_TIM s' = RIGHT_TIM s" "pwm_margin s' = pwm_margin s" "hw_trace s' = hw_trace s"
  using assms odometry_right_result [of inp s]
  by (auto simp: calibration_vars_def housekeeping_vars_def motor_vars_def)

lemma odometry_left_value:
  assumes "odometry_left inp s = Some s'"
  shows "\<exists>enc d.
      hall_position (hall (LEFT_HALL_U inp)) (hall (LEFT_HALL_V inp)) (hall (LEFT_HALL_W inp))
        = Some enc
    \<and> enc \<le> 5
    \<and> calc_encoder_ticks (enc_val_previous_left s) enc = Some d
    \<and> sint d \<in> {- 2, - 1, 0, 1, 2}
    \<and> wheel_left_ticks s' =
        word_of_int (sint (word_of_int (uint (wheel_left_ticks s) + sint d) :: 16 word) mod 9000)
    \<and> enc_val_previous_left s' = enc"
  using assms odometry_left_result [of inp s] by auto

lemma odometry_right_value:
  assumes "odometry_right inp s = Some s'"
  shows "\<exists>enc d.
      hall_position (hall (RIGHT_HALL_U inp)) (hall (RIGHT_HALL_V inp)) (hall (RIGHT_HALL_W inp))
        = Some enc
    \<and> enc \<le> 5
    \<and> calc_encoder_ticks (enc_val_previous_right s) enc = Some d
    \<and> sint d \<in> {- 2, - 1, 0, 1, 2}
    \<and> wheel_right_ticks s' =
        word_of_int (sint (word_of_int (uint (wheel_right_ticks s) - sint d) :: 16 word) mod 9000)
    \<and> enc_val_previous_right s' = enc"
  using assms odometry_right_result [of inp s] by auto

lemma motor_left_split:
  "\<exists>s2. odometry_left inp (step_left cfg (set_inputs_left inp s)) = Some s2
     \<and> motor_left cfg inp s =
         Some (apply_commands Left
                 (DC_phaA (rtY_Left (step_left cfg (set_inputs_left inp s))))
                 (DC_phaB (rtY_Left (step_left cfg (set_inputs_left inp s))))
                 (DC_phaC (rtY_Left (step_left cfg (set_inputs_left inp s)))) s2)"
proof -
  obtain s2 where "odometry_left inp (step_left cfg (set_inputs_left inp s)) = Some s2"
    using odometry_left_result by blast
  then show ?thesis by (simp add: motor_left_def Let_def)
qed

lemma motor_right_split:
  "\<exists>s2. odometry_right inp (step_right cfg (set_inputs_right inp s)) = Some s2
     \<and> motor_right cfg inp s =
         Some (apply_commands Right
                 (DC_phaA (rtY_Right (step_right cfg (set_inputs_right inp s))))
                 (DC_phaB (rtY_Right (step_right cfg (set_inputs_right inp s))))
                 (DC_phaC (rtY_Right (step_right cfg (set_inputs_right inp s)))) s2)"
proof -
  obtain s2 where "odometry_right inp (step_right cfg (set_inputs_right inp s)) = Some s2"
    using odometry_right_result by blast
  then show ?thesis by (simp add: motor_right_def Let_def)
qed

lemma motor_left_total: "\<exists>s'. motor_left cfg inp s = Some s'"
  using motor_left_split [of inp cfg s] by blast

lemma motor_right_total: "\<exists>s'. motor_right cfg inp s = Some s'"
  using motor_right_split [of inp cfg s] by blast

lemma motor_left_result:
  assumes "motor_left cfg inp s = Some s'"
  shows "calibration_vars s' = calibration_vars s"
    "housekeeping_vars s' = housekeeping_vars s"
    "fst (motor_vars s') = fst (motor_vars s)"
    "snd (snd (motor_vars s')) = snd (snd (motor_vars s))"
    "b_motEna (rtU_Left s') = enableFin s"
    "rtY_Left s' =
       (if MOTOR_LEFT_ENA cfg
        then fst (BLDC_controller_step cfg (rtU_Left s') (rtDW_Left s)) else rtY_Left s)"
    "TIM_U (LEFT_TIM s') = duty (pwm_margin s) (DC_phaA (rtY_Left s'))"
    "TIM_V (LEFT_TIM s') = duty (pwm_margin s) (DC_phaB (rtY_Left s'))"
    "TIM_W (LEFT_TIM s') = duty (pwm_margin s) (DC_phaC (rtY_Left s'))"
    "hw_trace s' = hw_trace s @ (if MOTOR_LEFT_ENA cfg then [Controller_step Left] else [])
       @ [Compare_write Left U (TIM_U (LEFT_TIM s')), Compare_write Left V (TIM_V (LEFT_TIM s')),
          Compare_write Left W (TIM_W (LEFT_TIM s'))]"
proof -
  let ?s1 = "step_left cfg (set_inputs_left inp s)"
  obtain s2 where s2: "odometry_left inp ?s1 = Some s2"
    and s': "s' = apply_commands Left (DC_phaA (rtY_Left ?s1)) (DC_phaB (rtY_Left ?s1))
                    (DC_phaC (rtY_Left ?s1)) s2"
    using motor_left_split [of inp cfg s] assms by auto
  note fr = odometry_left_frame [OF s2]
  show "calibration_vars s' = calibration_vars s"
    by (simp add: s' apply_commands_left fr)
  show "housekeeping_vars s' = housekeeping_vars s"
    by (simp add: s' apply_commands_left fr)
  show "fst (motor_vars s') = fst (motor_vars s)"
    by (simp add: s' apply_commands_left fr)
  show "snd (snd (motor_vars s')) = snd (snd (motor_vars s))"
    by (simp add: s' apply_commands_left fr)
  show "b_motEna (rtU_Left s') = enableFin s"
    by (simp add: s' apply_commands_left fr)
  have U: "rtU_Left s' = rtU_Left (set_inputs_left inp s)"
    by (simp add: s' apply_commands_left fr)
  have Y: "rtY_Left s' = rtY_Left ?s1"
    by (simp add: s' apply_commands_left fr)
  show "rtY_Left s' =
       (if MOTOR_LEFT_ENA cfg
        then fst (BLDC_controller_step cfg (rtU_Left s') (rtDW_Left s)) else rtY_Left s)"
    unfolding Y U by (simp add: step_left_value)
  show tu: "TIM_U (LEFT_TIM s') = duty (pwm_margin s) (DC_phaA (rtY_Left s'))"
    unfolding Y by (simp add: s' apply_commands_left fr)
  show tv: "TIM_V (LEFT_TIM s') = duty (pwm_margin s) (DC_phaB (rtY_Left s'))"
    unfolding Y by (simp add: s' apply_commands_left fr)
  show tw: "TIM_W (LEFT_TIM s') = duty (pwm_margin s) (DC_phaC (rtY_Left s'))"
    unfolding Y by (simp add: s' apply_commands_left fr)
  show "hw_trace s' = hw_trace s @ (if MOTOR_LEFT_ENA cfg then [Controller_step Left] else [])
       @ [Compare_write Left U (TIM_U (LEFT_TIM s')), Compare_write Left V (TIM_V (LEFT_TIM s')),
          Compare_write Left W (TIM_W (LEFT_TIM s'))]"
    unfolding tu tv tw Y by (simp add: s' apply_commands_left fr step_left_value)
qed

lemma motor_right_result:
  assumes "motor_right cfg inp s = Some s'"
  shows "calibration_vars s' = calibration_vars s"
    "housekeeping_vars s' = housekeeping_vars s"
    "fst (motor_vars s') = fst (motor_vars s)"
    "fst (snd (motor_vars s')) = fst (snd (motor_vars s))"
    "b_motEna (rtU_Right s') = enableFin s"
    "rtY_Right s' =
       (if MOTOR_RIGHT_ENA cfg
        then fst (BLDC_controller_step cfg (rtU_Right s') (rtDW_Right s)) else rtY_Right s)"
    "TIM_U (RIGHT_TIM s') = duty (pwm_margin s) (DC_phaA (rtY_Right s'))"
    "TIM_V (RIGHT_TIM s') = duty (pwm_margin s) (DC_phaB (rtY_Right s'))"
    "TIM_W (RIGHT_TIM s') = duty (pwm_margin s) (DC_phaC (rtY_Right s'))"
    "hw_trace s' = hw_trace s @ (if MOTOR_RIGHT_ENA cfg then [Controller_step Right] else [])
       @ [Compare_write Right U (TIM_U (RIGHT_TIM s')),
          Compare_write Right V (TIM_V (RIGHT_TIM s')),
          Compare_write Right W (TIM_W (RIGHT_TIM s'))]"
proof -
  let ?s1 = "step_right cfg (set_inputs_right inp s)"
  obtain s2 where s2: "odometry_right inp ?s1 = Some s2"
    and s': "s' = apply_commands Right (DC_phaA (rtY_Right ?s1)) (DC_phaB (rtY_Right ?s1))
                    (DC_phaC (rtY_Right ?s1)) s2"
    using motor_right_split [of inp cfg s] assms by auto
  note fr = odometry_right_frame [OF s2]
  show "calibration_vars s' = calibration_vars s"
    by (simp add: s' apply_commands_right fr)
  show "housekeeping_vars s' = housekeeping_vars s"
    by (simp add: s' apply_commands_right fr)
  show "fst (motor_vars s') = fst (motor_vars s)"
    by (simp add: s' apply_commands_right fr)
  show "fst (snd (motor_vars s')) = fst (snd (motor_vars s))"
    by (simp add: s' apply_commands_right fr)
  show "b_motEna (rtU_Right s') = enableFin s"
    by (simp add: s' apply_commands_right fr)
  have U: "rtU_Right s' = rtU_Right (set_inputs_right inp s)"
    by (simp add: s' apply_commands_right fr)
  have Y: "rtY_Right s' = rtY_Right ?s1"
    by (simp add: s' apply_commands_right fr)
  show "rtY_Right s' =
       (if MOTOR_RIGHT_ENA cfg
        then fst (BLDC_controller_step cfg (rtU_Right s') (rtDW_Right s)) else rtY_Right s)"
    unfolding Y U by (simp add: step_right_value)
  show tu: "TIM_U (RIGHT_TIM s') = duty (pwm_margin s) (DC_phaA (rtY_Right s'))"
    unfolding Y by (simp add: s' apply_commands_right fr)
  show tv: "TIM_V (RIGHT_TIM s') = duty (pwm_margin s) (DC_phaB (rtY_Right s'))"
    unfolding Y by (simp add: s' apply_commands_right fr)
  show tw: "TIM_W (RIGHT_TIM s') = duty (pwm_margin s) (DC_phaC (rtY_Right s'))"
    unfolding Y by (simp add: s' apply_commands_right fr)
  show "hw_trace s' = hw_trace s @ (if MOTOR_RIGHT_ENA cfg then [Controller_step Right] else [])
       @ [Compare_write Right U (TIM_U (RIGHT_TIM s')),
          Compare_write Right V (TIM_V (RIGHT_TIM s')),
          Compare_write Right W (TIM_W (RIGHT_TIM s'))]"
    unfolding tu tv tw Y by (simp add: s' apply_commands_right fr step_right_value)
qed

lemma motor_left_odometry:
  assumes "motor_left cfg inp s = Some s'"
  shows "\<exists>enc d.
      hall_position (hall (LEFT_HALL_U inp)) (hall (LEFT_HALL_V inp)) (hall (LEFT_HALL_W inp))
        = Some enc
    \<and> enc \<le> 5
    \<and> calc_encoder_ticks (enc_val_previous_left s) enc = Some d
    \<and> sint d \<in> {- 2, - 1, 0, 1, 2}
    \<and> wheel_left_ticks s' =
        word_of_int (sint (word_of_int (uint (wheel_left_ticks s) + sint d) :: 16 word) mod 9000)
    \<and> enc_val_previous_left s' = enc"
proof -
  let ?s1 = "step_left cfg (set_inputs_left inp s)"
  obtain s2 where s2: "odometry_left inp ?s1 = Some s2"
    and s': "s' = apply_commands Left (DC_phaA (rtY_Left ?s1)) (DC_phaB (rtY_Left ?s1))
                    (DC_phaC (rtY_Left ?s1)) s2"
    using motor_left_split [of inp cfg s] assms by auto
  show ?thesis
    using odometry_left_value [OF s2] by (simp add: s' apply_commands_left)
qed

lemma motor_right_odometry:
  assumes "motor_right cfg inp s = Some s'"
  shows "\<exists>enc d.
      hall_position (hall (RIGHT_HALL_U inp)) (hall (RIGHT_HALL_V inp)) (hall (RIGHT_HALL_W inp))
        = Some enc
    \<and> enc \<le> 5
    \<and> calc_encoder_ticks (enc_val_previous_right s) enc = Some d
    \<and> sint d \<in> {- 2, - 1, 0, 1, 2}
    \<and> wheel_right_ticks s' =
        word_of_int (sint (word_of_int (uint (wheel_right_ticks s) - sint d) :: 16 word) mod 9000)
    \<and> enc_val_previous_right s' = enc"
proof -
  let ?s1 = "step_right cfg (set_inputs_right inp s)"
  obtain s2 where s2: "odometry_right inp ?s1 = Some s2"
    and s': "s' = apply_commands Right (DC_phaA (rtY_Right ?s1)) (DC_phaB (rtY_Right ?s1))
                    (DC_phaC (rtY_Right ?s1)) s2"
    using motor_right_split [of inp cfg s] assms by auto
  show ?thesis
    using odometry_right_value [OF s2] by (simp add: s' apply_commands_right)
qed

lemma set_enableFin_frame [simp]:
  "calibration_vars (set_enableFin inp s) = calibration_vars s"
  "housekeeping_vars (set_enableFin inp s) = housekeeping_vars s"
  "snd (motor_vars (set_enableFin inp s)) = snd (motor_vars s)"
  "OverrunFlag (set_enableFin inp s) = OverrunFlag s"
  "hw_trace (set_enableFin inp s) = hw_trace s"
  "enableFin (set_enableFin inp s) =
     (if enable inp \<noteq> 0 \<and> z_errCode (rtY_Left s) = 0 \<and> z_errCode (rtY_Right s) = 0
      then 1 else 0)"
  by (simp_all add: set_enableFin_def calibration_vars_def housekeeping_vars_def motor_vars_def)

lemma OverrunFlag_update_frame [simp]:
  "calibration_vars (s\<lparr>OverrunFlag := b\<rparr>) = calibration_vars s"
  "housekeeping_vars (s\<lparr>OverrunFlag := b\<rparr>) = housekeeping_vars s"
  "snd (motor_vars (s\<lparr>OverrunFlag := b\<rparr>)) = snd (motor_vars s)"
  "fst (motor_vars (s\<lparr>OverrunFlag := b\<rparr>)) = (b, enableFin s)"
  by (simp_all add: calibration_vars_def housekeeping_vars_def motor_vars_def)

lemma motor_control_overrun: "OverrunFlag s \<Longrightarrow> motor_control cfg inp s = Some s"
  by (simp add: motor_control_def)

lemma motor_control_split:
  assumes "\<not> OverrunFlag s"
  shows "\<exists>sl sr. motor_left cfg inp (set_enableFin inp (s\<lparr>OverrunFlag := True\<rparr>)) = Some sl
           \<and> motor_right cfg inp sl = Some sr
           \<and> motor_control cfg inp s = Some (sr\<lparr>OverrunFlag := False\<rparr>)"
proof -
  obtain sl where sl: "motor_left cfg inp (set_enableFin inp (s\<lparr>OverrunFlag := True\<rparr>)) = Some sl"
    using motor_left_total by blast
  obtain sr where sr: "motor_right cfg inp sl = Some sr"
    using motor_right_total by blast
  show ?thesis using assms sl sr by (simp add: motor_control_def)
qed

lemma motor_control_total: "\<exists>s'. motor_control cfg inp s = Some s'"
  using motor_control_overrun [of s cfg inp] motor_control_split [of s cfg inp] by blast

lemma motor_control_result:
  assumes "\<not> OverrunFlag s" and "motor_control cfg inp s = Some s'"
  shows "calibration_vars s' = calibration_vars s"
    "housekeeping_vars s' = housekeeping_vars s"
    "\<not> OverrunFlag s'"
    "enableFin s' =
       (if enable inp \<noteq> 0 \<and> z_errCode (rtY_Left s) = 0 \<and> z_errCode (rtY_Right s) = 0
        then 1 else 0)"
    "b_motEna (rtU_Left s') = enableFin s'"
    "b_motEna (rtU_Right s') = enableFin s'"
    "rtY_Left s' =
       (if MOTOR_LEFT_ENA cfg
        then fst (BLDC_controller_step cfg (rtU_Left s') (rtDW_Left s)) else rtY_Left s)"
    "rtY_Right s' =
       (if MOTOR_RIGHT_ENA cfg
        then fst (BLDC_controller_step cfg (rtU_Right s') (rtDW_Right s)) else rtY_Right s)"
    "TIM_U (LEFT_TIM s') = duty (pwm_margin s) (DC_phaA (rtY_Left s'))"
    "TIM_V (LEFT_TIM s') = duty (pwm_margin s) (DC_phaB (rtY_Left s'))"
    "TIM_W (LEFT_TIM s') = duty (pwm_margin s) (DC_phaC (rtY_Left s'))"
    "TIM_U (RIGHT_TIM s') = duty (pwm_margin s) (DC_phaA (rtY_Right s'))"
    "TIM_V (RIGHT_TIM s') = duty (pwm_margin s) (DC_phaB (rtY_Right s'))"
    "TIM_W (RIGHT_TIM s') = duty (pwm_margin s) (DC_phaC (rtY_Right s'))"
    "hw_trace s' = hw_trace s
       @ (if MOTOR_LEFT_ENA cfg then [Controller_step Left] else [])
       @ [Compare_write Left U (TIM_U (LEFT_TIM s')), Compare_write Left V (TIM_V (LEFT_TIM s')),
          Compare_write Left W (TIM_W (LEFT_TIM s'))]
       @ (if MOTOR_RIGHT_ENA cfg then [Controller_step Right] else [])
       @ [Compare_write Right U (TIM_U (RIGHT_TIM s')),
          Compare_write Right V (TIM_V (RIGHT_TIM s')),
          Compare_write Right W (TIM_W (RIGHT_TIM s'))]"
proof -
  let ?sa = "set_enableFin inp (s\<lparr>OverrunFlag := True\<rparr>)"
  obtain sl sr where sl: "motor_left cfg inp ?sa = Some sl"
    and sr: "motor_right cfg inp sl = Some sr"
    and s': "s' = sr\<lparr>OverrunFlag := False\<rparr>"
    using motor_control_split [OF assms(1), of cfg inp] assms(2) by auto
  note L = motor_left_result [OF sl]
  note R = motor_right_result [OF sr]
  have a_right: "snd (snd (motor_vars ?sa)) = snd (snd (motor_vars s))"
    by simp
  have a_left: "fst (snd (motor_vars ?sa)) = fst (snd (motor_vars s))"
    by simp
  have a_margin: "pwm_margin ?sa = pwm_margin s"
    by (simp add: set_enableFin_def)
  have l_margin: "pwm_margin sl = pwm_margin s"
    using L(2) a_margin by (simp add: housekeeping_vars_def)
  have a_en: "enableFin ?sa =
       (if enable inp \<noteq> 0 \<and> z_errCode (rtY_Left s) = 0 \<and> z_errCode (rtY_Right s) = 0
        then 1 else 0)"
    by (simp add: set_enableFin_def)
  have l_en: "enableFin sl = enableFin ?sa" using L(3) by (simp add: motor_vars_def)
  have r_en: "enableFin sr = enableFin sl" using R(3) by (simp add: motor_vars_def)
  have left_keep: "rtU_Left sr = rtU_Left sl" "rtY_Left sr = rtY_Left sl"
      "TIM_U (LEFT_TIM sr) = TIM_U (LEFT_TIM sl)" "TIM_V (LEFT_TIM sr) = TIM_V (LEFT_TIM sl)"
      "TIM_W (LEFT_TIM sr) = TIM_W (LEFT_TIM sl)"
    using R(4) by (simp_all add: motor_vars_def)
  have right_keep: "rtDW_Right sl = rtDW_Right s" "rtY_Right sl = rtY_Right s"
    using L(4) a_right by (simp_all add: motor_vars_def)
  have left_in: "rtDW_Left ?sa = rtDW_Left s" "rtY_Left ?sa = rtY_Left s"
    using a_left by (simp_all add: motor_vars_def)
  show "calibration_vars s' = calibration_vars s" by (simp add: s' L R)
  show "housekeeping_vars s' = housekeeping_vars s" by (simp add: s' L R)
  show "\<not> OverrunFlag s'" by (simp add: s')
  show en: "enableFin s' =
       (if enable inp \<noteq> 0 \<and> z_errCode (rtY_Left s) = 0 \<and> z_errCode (rtY_Right s) = 0
        then 1 else 0)"
    using a_en l_en r_en by (simp add: s')
  show "b_motEna (rtU_Left s') = enableFin s'"
    using L(5) left_keep(1) l_en r_en by (simp add: s')
  show "b_motEna (rtU_Right s') = enableFin s'"
    using R(5) r_en by (simp add: s')
  show "rtY_Left s' =
       (if MOTOR_LEFT_ENA cfg
        then fst (BLDC_controller_step cfg (rtU_Left s') (rtDW_Left s)) else rtY_Left s)"
    using L(6) left_keep(1,2) left_in by (simp add: s')
  show "rtY_Right s' =
       (if MOTOR_RIGHT_ENA cfg
        then fst (BLDC_controller_step cfg (rtU_Right s') (rtDW_Right s)) else rtY_Right s)"
    using R(6) right_keep by (simp add: s')
  show lu: "TIM_U (LEFT_TIM s') = duty (pwm_margin s) (DC_phaA (rtY_Left s'))"
    using L(7) left_keep a_margin by (simp add: s')
  show lv: "TIM_V (LEFT_TIM s') = duty (pwm_margin s) (DC_phaB (rtY_Left s'))"
    using L(8) left_keep a_margin by (simp add: s')
  show lw: "TIM_W (LEFT_TIM s') = duty (pwm_margin s) (DC_phaC (rtY_Left s'))"
    using L(9) left_keep a_margin by (simp add: s')
  show "TIM_U (RIGHT_TIM s') = duty (pwm_margin s) (DC_phaA (rtY_Right s'))"
    using R(7) l_margin by (simp add: s')
  show "TIM_V (RIGHT_TIM s') = duty (pwm_margin s) (DC_phaB (rtY_Right s'))"
    using R(8) l_margin by (simp add: s')
  show "TIM_W (RIGHT_TIM s') = duty (pwm_margin s) (DC_phaC (rtY_Right s'))"
    using R(9) l_margin by (simp add: s')
  have "hw_trace ?sa = hw_trace s" by (simp add: set_enableFin_def)
  then show "hw_trace s' = hw_trace s
       @ (if MOTOR_LEFT_ENA cfg then [Controller_step Left] else [])
       @ [Compare_write Left U (TIM_U (LEFT_TIM s')), Compare_write Left V (TIM_V (LEFT_TIM s')),
          Compare_write Left W (TIM_W (LEFT_TIM s'))]
       @ (if MOTOR_RIGHT_ENA cfg then [Controller_step Right] else [])
       @ [Compare_write Right U (TIM_U (RIGHT_TIM s')),
          Compare_write Right V (TIM_V (RIGHT_TIM s')),
          Compare_write Right W (TIM_W (RIGHT_TIM s'))]"
    using L(10) R(10) left_keep by (simp add: s')
qed

lemma motor_control_odometry:
  assumes "\<not> OverrunFlag s" and "motor_control cfg inp s = Some s'"
  shows "\<exists>enc d.
      hall_position (hall (LEFT_HALL_U inp)) (hall (LEFT_HALL_V inp)) (hall (LEFT_HALL_W inp))
        = Some enc
    \<and> enc \<le> 5
    \<and> calc_encoder_ticks (enc_val_previous_left s) enc = Some d
    \<and> sint d \<in> {- 2, - 1, 0, 1, 2}
    \<and> wheel_left_ticks s' =
        word_of_int (sint (word_of_int (uint (wheel_left_ticks s) + sint d) :: 16 word) mod 9000)
    \<and> enc_val_previous_left s' = enc"
  and "\<exists>enc d.
      hall_position (hall (RIGHT_HALL_U inp)) (hall (RIGHT_HALL_V inp)) (hall (RIGHT_HALL_W inp))
        = Some enc
    \<and> enc \<le> 5
    \<and> calc_encoder_ticks (enc_val_previous_right s) enc = Some d
    \<and> sint d \<in> {- 2, - 1, 0, 1, 2}
    \<and> wheel_right_ticks s' =
        word_of_int (sint (word_of_int (uint (wheel_right_ticks s) - sint d) :: 16 word) mod 9000)
    \<and> enc_val_previous_right s' = enc"
proof -
  let ?sa = "set_enableFin inp (s\<lparr>OverrunFlag := True\<rparr>)"
  obtain sl sr where sl: "motor_left cfg inp ?sa = Some sl"
    and sr: "motor_right cfg inp sl = Some sr"
    and s': "s' = sr\<lparr>OverrunFlag := False\<rparr>"
    using motor_control_split [OF assms(1), of cfg inp] assms(2) by auto
  have a: "wheel_left_ticks ?sa = wheel_left_ticks s"
      "enc_val_previous_left ?sa = enc_val_previous_left s"
      "wheel_right_ticks ?sa = wheel_right_ticks s"
      "enc_val_previous_right ?sa = enc_val_previous_right s"
    by (simp_all add: set_enableFin_def)
  have l: "wheel_right_ticks sl = wheel_right_ticks ?sa"
      "enc_val_previous_right sl = enc_val_previous_right ?sa"
    using motor_left_result(4) [OF sl] by (simp_all add: motor_vars_def)
  have r: "wheel_left_ticks sr = wheel_left_ticks sl"
      "enc_val_previous_left sr = enc_val_previous_left sl"
    using motor_right_result(4) [OF sr] by (simp_all add: motor_vars_def)
  show "\<exists>enc d.
      hall_position (hall (LEFT_HALL_U inp)) (hall (LEFT_HALL_V inp)) (hall (LEFT_HALL_W inp))
        = Some enc
    \<and> enc \<le> 5
    \<and> calc_encoder_ticks (enc_val_previous_left s) enc = Some d
    \<and> sint d \<in> {- 2, - 1, 0, 1, 2}
    \<and> wheel_left_ticks s' =
        word_of_int (sint (word_of_int (uint (wheel_left_ticks s) + sint d) :: 16 word) mod 9000)
    \<and> enc_val_previous_left s' = enc"
    using motor_left_odometry [OF sl] by (simp add: s' a r)
  show "\<exists>enc d.
      hall_position (hall (RIGHT_HALL_U inp)) (hall (RIGHT_HALL_V inp)) (hall (RIGHT_HALL_W inp))
        = Some enc
    \<and> enc \<le> 5
    \<and> calc_encoder_ticks (enc_val_previous_right s) enc = Some d
    \<and> sint d \<in> {- 2, - 1, 0, 1, 2}
    \<and> wheel_right_ticks s' =
        word_of_int (sint (word_of_int (uint (wheel_right_ticks s) - sint d) :: 16 word) mod 9000)
    \<and> enc_val_previous_right s' = enc"
    using motor_right_odometry [OF sr] by (simp add: s' a l)
qed

subsection \<open>The whole tick\<close>

lemma tick_calibrating:
  "offsetcount s < 2000 \<Longrightarrow>
     DMA1_Channel1_IRQHandler cfg inp s = Some (calibrate inp (emit DMA_IFCR_write s))"
  by (simp add: DMA1_Channel1_IRQHandler_def Let_def emit_def)

lemma tick_running:
  "\<not> offsetcount s < 2000 \<Longrightarrow>
     DMA1_Channel1_IRQHandler cfg inp s =
       motor_control cfg inp (housekeeping cfg inp (emit DMA_IFCR_write s))"
  by (simp add: DMA1_Channel1_IRQHandler_def Let_def emit_def)

lemma tick_total: "\<exists>s'. DMA1_Channel1_IRQHandler cfg inp s = Some s'"
  using tick_calibrating [of s cfg inp] tick_running [of s cfg inp]
    motor_control_total [of cfg inp "housekeeping cfg inp (emit DMA_IFCR_write s)"]
  by (cases "offsetcount s < 2000") auto

lemma motor_control_keeps:
  assumes "motor_control cfg inp s = Some s'"
  shows "calibration_vars s' = calibration_vars s" "housekeeping_vars s' = housekeeping_vars s"
proof -
  show "calibration_vars s' = calibration_vars s"
  proof (cases "OverrunFlag s")
    case True
    then show ?thesis using assms by (simp add: motor_control_overrun)
  next
    case False
    then show ?thesis using assms by (rule motor_control_result(1))
  qed
  show "housekeeping_vars s' = housekeeping_vars s"
  proof (cases "OverrunFlag s")
    case True
    then show ?thesis using assms by (simp add: motor_control_overrun)
  next
    case False
    then show ?thesis using assms by (rule motor_control_result(2))
  qed
qed

subsection \<open>Calibration and interlock\<close>

lemma tick_keeps_calibration:
  assumes "\<not> offsetcount s < 2000" and "DMA1_Channel1_IRQHandler cfg inp s = Some s'"
  shows "calibration_vars s' = calibration_vars s"
proof -
  have "motor_control cfg inp (housekeeping cfg inp (emit DMA_IFCR_write s)) = Some s'"
    using assms by (simp add: tick_running)
  then have "calibration_vars s' = calibration_vars (housekeeping cfg inp (emit DMA_IFCR_write s))"
    by (rule motor_control_keeps(1))
  then show ?thesis by simp
qed

lemma run_keeps_calibration:
  "\<not> offsetcount s < 2000 \<Longrightarrow>
     \<exists>s'. run cfg s inps = Some s' \<and> calibration_vars s' = calibration_vars s"
proof (induction inps arbitrary: s)
  case Nil
  then show ?case by simp
next
  case (Cons inp inps)
  obtain s1 where s1: "DMA1_Channel1_IRQHandler cfg inp s = Some s1"
    using tick_total by blast
  have keep: "calibration_vars s1 = calibration_vars s"
    using Cons.prems s1 by (rule tick_keeps_calibration)
  then have "offsetcount s1 = offsetcount s" by (simp add: calibration_vars_def)
  then have "\<not> offsetcount s1 < 2000" using Cons.prems by simp
  then obtain s' where "run cfg s1 inps = Some s'" "calibration_vars s' = calibration_vars s1"
    using Cons.IH by blast
  then show ?case using s1 keep by simp
qed

text \<open>
  Claim C8. Once \<open>offsetcount\<close> has reached 2000, no later tick changes any of the six ADC
  offsets, whatever samples the ADC buffer holds; every run of ticks completes, and the
  counter stays where it is as well, so the calibration never starts again.
\<close>

theorem calibration_freeze:
  assumes "\<not> offsetcount s < 2000"
  shows "\<exists>s'. run cfg s inps = Some s'
           \<and> offsetrlA s' = offsetrlA s \<and> offsetrlB s' = offsetrlB s
           \<and> offsetrrB s' = offsetrrB s \<and> offsetrrC s' = offsetrrC s
           \<and> offsetdcl s' = offsetdcl s \<and> offsetdcr s' = offsetdcr s
           \<and> offsetcount s' = offsetcount s"
  using run_keeps_calibration [OF assms, of cfg inps] by (auto simp: calibration_vars_def)


text \<open>Three ticks on a calibrated state, two of them with scattered samples.\<close>

theorem calibration_freeze_witness:
  "\<not> offsetcount test_state < 2000
   \<and> map_option offsetrlA (run test_config test_state [noisy_input, test_input, noisy_input])
       = Some 2000
   \<and> map_option offsetdcr (run test_config test_state [noisy_input, test_input, noisy_input])
       = Some 2000"
  using calibration_freeze [of test_state test_config "[noisy_input, test_input, noisy_input]"]
  by (auto simp: test_state_def)

text \<open>
  Claim C1, amended. On every tick after calibration, and for each motor on its own, the
  master-output-enable bit is set exactly when \<open>enable\<close> is nonzero and the magnitude of
  the DC-link current of this tick does not exceed \<open>curDC_max\<close>: a current equal to the
  limit leaves the stage armed. The current is the frozen offset minus the sample of this
  tick, and the bit is a function of these values alone: the bits of the earlier ticks
  do not enter it.
\<close>

theorem interlock_gate:
  assumes "\<not> offsetcount s < 2000"
  shows "\<exists>s'. DMA1_Channel1_IRQHandler cfg inp s = Some s'
     \<and> curL_DC s' = word_of_int (sint (offsetdcl s) - uint (dcl (adc_buffer inp)))
     \<and> curR_DC s' = word_of_int (sint (offsetdcr s) - uint (dcr (adc_buffer inp)))
     \<and> (BDTR_MOE (LEFT_TIM s')
          \<longleftrightarrow> enable inp \<noteq> 0 \<and> ABS (sint (curL_DC s')) \<le> sint (curDC_max cfg))
     \<and> (BDTR_MOE (RIGHT_TIM s')
          \<longleftrightarrow> enable inp \<noteq> 0 \<and> ABS (sint (curR_DC s')) \<le> sint (curDC_max cfg))"
proof -
  let ?h = "housekeeping cfg inp (emit DMA_IFCR_write s)"
  obtain s' where s': "DMA1_Channel1_IRQHandler cfg inp s = Some s'"
    using tick_total by blast
  then have "motor_control cfg inp ?h = Some s'"
    using assms by (simp add: tick_running)
  then have "housekeeping_vars s' = housekeeping_vars ?h"
    by (rule motor_control_keeps(2))
  then have same: "curL_DC s' = curL_DC ?h" "curR_DC s' = curR_DC ?h"
      "BDTR_MOE (LEFT_TIM s') = BDTR_MOE (LEFT_TIM ?h)"
      "BDTR_MOE (RIGHT_TIM s') = BDTR_MOE (RIGHT_TIM ?h)"
    by (simp_all add: housekeeping_vars_def)
  have off: "offsetdcl (emit DMA_IFCR_write s) = offsetdcl s"
      "offsetdcr (emit DMA_IFCR_write s) = offsetdcr s"
    by (simp_all add: emit_def)
  show ?thesis
    using s' same housekeeping_MOE [of cfg inp "emit DMA_IFCR_write s"]
      housekeeping_currents [of cfg inp "emit DMA_IFCR_write s"] off
    by auto
qed

text \<open>A tick with 850 on the left and 1000 on the right, against a limit of 850.\<close>

theorem interlock_gate_witness:
  "\<not> offsetcount test_state < 2000
   \<and> map_option (BDTR_MOE \<circ> LEFT_TIM)
       (DMA1_Channel1_IRQHandler test_config noisy_input test_state) = Some True
   \<and> map_option (BDTR_MOE \<circ> RIGHT_TIM)
       (DMA1_Channel1_IRQHandler test_config noisy_input test_state) = Some False"
  using interlock_gate [of test_state test_config noisy_input]
  by (auto simp: test_state_def test_config_def noisy_input_def test_input_def ABS_def)

text \<open>Claim C1 as stated asks for a magnitude below the limit. With the left current at
  the limit the stage is armed, although 850 is not below 850.\<close>

theorem interlock_gate_counterexample:
  "map_option (BDTR_MOE \<circ> LEFT_TIM)
     (DMA1_Channel1_IRQHandler test_config noisy_input test_state) = Some True
   \<and> map_option (ABS \<circ> sint \<circ> curL_DC)
       (DMA1_Channel1_IRQHandler test_config noisy_input test_state) = Some 850
   \<and> sint (curDC_max test_config) = 850
   \<and> enable noisy_input \<noteq> 0
   \<and> \<not> offsetcount test_state < 2000"
  by code_simp

subsection \<open>The helper and the tables\<close>

text \<open>
  Claim C10. For every \<open>int16_t\<close> value and every nonzero modulus,
  \<open>clamp_module_max\<close> returns the mathematical residue of the value, which lies in
  \<open>[0, max)\<close>, also for the negative values whose truncating remainder is negative.
\<close>

theorem clamp_module_max_residue:
  assumes "mx \<noteq> 0"
  shows "map_option uint (clamp_module_max val mx) = Some (sint val mod uint mx)
           \<and> 0 \<le> sint val mod uint mx \<and> sint val mod uint mx < uint mx"
proof -
  have pos: "0 < uint mx" using assms uint_nonnegative [of mx] uint_0_iff [of mx] by linarith
  let ?r = "sint val mod uint mx"
  have lo: "0 \<le> ?r" and hi: "?r < uint mx" using pos by simp_all
  have "?r < 65536" using hi uint_lt_16 [of mx] by linarith
  then have "uint (word_of_int ?r :: 16 word) = ?r" using lo by (simp add: uint_word_of_int_16)
  then show ?thesis using lo hi clamp_module_max_eq [OF assms, of val] by simp
qed

text \<open>The value \<open>-1\<close>, whose truncating remainder by 6 is \<open>-1\<close>, gives 5.\<close>

theorem clamp_module_max_residue_witness:
  "(6 :: 16 word) \<noteq> 0 \<and> map_option uint (clamp_module_max (- 1) 6) = Some 5
   \<and> (- 1 :: int) smod 6 = - 1"
  using clamp_module_max_residue [of 6 "- 1"] by (simp add: smod_int_alt_def)

text \<open>
  Claim C6. The position table sends the raw codes 0 to 7 to 0, 2, 0, 1, 4, 3, 5, 0: every
  code of three hall lines has a position, at most 5, and the two codes with no position
  of their own, 0 and 7, get 0. The delta of a transition is the entry of
  \<open>enc_vals_table\<close> at \<open>(previous - current) mod 6\<close>, and the entries are
  0, -1, -2, 0, 2, 1.
\<close>

theorem hall_tables:
  "hall_position 0 0 0 = Some 0 \<and> hall_position 0 0 1 = Some 2
   \<and> hall_position 0 1 0 = Some 0 \<and> hall_position 0 1 1 = Some 1
   \<and> hall_position 1 0 0 = Some 4 \<and> hall_position 1 0 1 = Some 3
   \<and> hall_position 1 1 0 = Some 5 \<and> hall_position 1 1 1 = Some 0
   \<and> hall_position (hall a) (hall b) (hall c) =
       Some (vec_hallToPos_Value ! unat (4 * hall a + 2 * hall b + hall c))
   \<and> unat (4 * hall a + 2 * hall b + hall c) < 8
   \<and> vec_hallToPos_Value ! unat (4 * hall a + 2 * hall b + hall c) \<le> 5
   \<and> calc_encoder_ticks p c' = Some (enc_vals_table ! nat ((uint p - uint c') mod 6))
   \<and> map sint enc_vals_table = [0, - 1, - 2, 0, 2, 1]"
proof -
  have tab: "hall_position 0 0 0 = Some 0 \<and> hall_position 0 0 1 = Some 2
   \<and> hall_position 0 1 0 = Some 0 \<and> hall_position 0 1 1 = Some 1
   \<and> hall_position 1 0 0 = Some 4 \<and> hall_position 1 0 1 = Some 3
   \<and> hall_position 1 1 0 = Some 5 \<and> hall_position 1 1 1 = Some 0"
    by (simp add: hall_position_def array_read_def vec_hallToPos_Value_def)
  have pos: "hall_position (hall a) (hall b) (hall c) =
       Some (vec_hallToPos_Value ! unat (4 * hall a + 2 * hall b + hall c))
   \<and> unat (4 * hall a + 2 * hall b + hall c) < 8
   \<and> vec_hallToPos_Value ! unat (4 * hall a + 2 * hall b + hall c) \<le> 5"
    by (cases a; cases b; cases c)
       (simp_all add: hall_position_def hall_def array_read_def vec_hallToPos_Value_def)
  have ent: "map sint enc_vals_table = [0, - 1, - 2, 0, 2, 1]"
    by (simp add: enc_vals_table_def)
  show ?thesis using tab pos ent calc_encoder_ticks_eq [of p c'] by simp
qed

subsection \<open>Enable decision and overrun\<close>

lemma tick_events_append: "hw_trace s' = hw_trace s @ evs \<Longrightarrow> tick_events s s' = evs"
  by (simp add: tick_events_def)

lemma housekeeping_entry:
  "motor_vars (housekeeping cfg inp (emit DMA_IFCR_write s)) = motor_vars s"
  "calibration_vars (housekeeping cfg inp (emit DMA_IFCR_write s)) = calibration_vars s"
  "pwm_margin (housekeeping cfg inp (emit DMA_IFCR_write s)) =
     (if uint (z_ctrlTypSel (rtP_Left s)) = FOC_CTRL cfg then 110 else 0)"
proof -
  show "motor_vars (housekeeping cfg inp (emit DMA_IFCR_write s)) = motor_vars s" by simp
  show "calibration_vars (housekeeping cfg inp (emit DMA_IFCR_write s)) = calibration_vars s"
    by simp
  show "pwm_margin (housekeeping cfg inp (emit DMA_IFCR_write s)) =
     (if uint (z_ctrlTypSel (rtP_Left s)) = FOC_CTRL cfg then 110 else 0)"
    by (simp add: housekeeping_margin emit_def)
qed

lemma housekeeping_entry_trace:
  "\<exists>bz. hw_trace (housekeeping cfg inp (emit DMA_IFCR_write s)) = hw_trace s @
       [DMA_IFCR_write,
        BDTR_write Left (BDTR_MOE (LEFT_TIM (housekeeping cfg inp (emit DMA_IFCR_write s)))),
        BDTR_write Right (BDTR_MOE (RIGHT_TIM (housekeeping cfg inp (emit DMA_IFCR_write s))))]
       @ bz
     \<and> set bz \<subseteq> {BUZZER_toggle, BUZZER_reset}"
  using housekeeping_trace [of cfg inp "emit DMA_IFCR_write s"] by auto

lemma tick_overrun:
  assumes "\<not> offsetcount s < 2000" and "OverrunFlag s"
  shows "DMA1_Channel1_IRQHandler cfg inp s =
           Some (housekeeping cfg inp (emit DMA_IFCR_write s))"
proof -
  have "OverrunFlag (housekeeping cfg inp (emit DMA_IFCR_write s))"
    using housekeeping_entry(1) [of cfg inp s] assms(2) by (simp add: motor_vars_def)
  then show ?thesis using assms(1) by (simp add: tick_running motor_control_overrun)
qed

lemma tick_actuating:
  assumes "\<not> offsetcount s < 2000" and "\<not> OverrunFlag s"
  shows "\<exists>s'. DMA1_Channel1_IRQHandler cfg inp s = Some s'
           \<and> motor_control cfg inp (housekeeping cfg inp (emit DMA_IFCR_write s)) = Some s'
           \<and> \<not> OverrunFlag (housekeeping cfg inp (emit DMA_IFCR_write s))"
proof -
  have "\<not> OverrunFlag (housekeeping cfg inp (emit DMA_IFCR_write s))"
    using housekeeping_entry(1) [of cfg inp s] assms(2) by (simp add: motor_vars_def)
  then show ?thesis
    using assms(1) tick_total [of cfg inp s] by (auto simp: tick_running)
qed

lemma write_MOE_keeps:
  "curL_phaA (write_MOE m b s) = curL_phaA s" "curL_phaB (write_MOE m b s) = curL_phaB s"
  "curR_phaB (write_MOE m b s) = curR_phaB s" "curR_phaC (write_MOE m b s) = curR_phaC s"
  "batVoltage (write_MOE m b s) = batVoltage s"
  "batVoltageFixdt (write_MOE m b s) = batVoltageFixdt s"
  by (cases m; simp add: write_MOE_def emit_def)+

lemma interlock_keeps:
  "curL_phaA (interlock cfg inp s) = curL_phaA s" "curL_phaB (interlock cfg inp s) = curL_phaB s"
  "curR_phaB (interlock cfg inp s) = curR_phaB s" "curR_phaC (interlock cfg inp s) = curR_phaC s"
  "batVoltage (interlock cfg inp s) = batVoltage s"
  "batVoltageFixdt (interlock cfg inp s) = batVoltageFixdt s"
  by (simp_all add: interlock_def Let_def write_MOE_keeps)

lemma buzzer_keeps:
  "curL_phaA (buzzer inp s) = curL_phaA s" "curL_phaB (buzzer inp s) = curL_phaB s"
  "curR_phaB (buzzer inp s) = curR_phaB s" "curR_phaC (buzzer inp s) = curR_phaC s"
  "batVoltage (buzzer inp s) = batVoltage s"
  "batVoltageFixdt (buzzer inp s) = batVoltageFixdt s"
  by (simp_all add: buzzer_def Let_def emit_def)

lemma adjust_pwm_margin_keeps:
  "curL_phaA (adjust_pwm_margin cfg s) = curL_phaA s"
  "curL_phaB (adjust_pwm_margin cfg s) = curL_phaB s"
  "curR_phaB (adjust_pwm_margin cfg s) = curR_phaB s"
  "curR_phaC (adjust_pwm_margin cfg s) = curR_phaC s"
  "batVoltage (adjust_pwm_margin cfg s) = batVoltage s"
  "batVoltageFixdt (adjust_pwm_margin cfg s) = batVoltageFixdt s"
  by (simp_all add: adjust_pwm_margin_def)

lemma housekeeping_phase_currents:
  "curL_phaA (housekeeping cfg inp s) = word_of_int (sint (offsetrlA s) - uint (rlA (adc_buffer inp)))"
  "curL_phaB (housekeeping cfg inp s) = word_of_int (sint (offsetrlB s) - uint (rlB (adc_buffer inp)))"
  "curR_phaB (housekeeping cfg inp s) = word_of_int (sint (offsetrrB s) - uint (rrB (adc_buffer inp)))"
  "curR_phaC (housekeeping cfg inp s) = word_of_int (sint (offsetrrC s) - uint (rrC (adc_buffer inp)))"
  by (simp_all add: housekeeping_def adjust_pwm_margin_keeps buzzer_keeps interlock_keeps
        get_currents_def battery_filter_def Let_def)

lemma housekeeping_battery:
  "batVoltageFixdt (housekeeping cfg inp s) =
     (if unat (buzzerTimer s) mod 1000 = 0
      then filtLowPass32 cfg (batt1 (adc_buffer inp)) (batVoltageFixdt s)
      else batVoltageFixdt s)"
  "batVoltage (housekeeping cfg inp s) =
     (if unat (buzzerTimer s) mod 1000 = 0
      then word_of_int (sint (filtLowPass32 cfg (batt1 (adc_buffer inp)) (batVoltageFixdt s))
             div 2 ^ 16)
      else batVoltage s)"
  by (simp_all add: housekeeping_def adjust_pwm_margin_keeps buzzer_keeps interlock_keeps
        get_currents_def battery_filter_def Let_def)

lemma stage_OverrunFlag:
  "emit e (s\<lparr>OverrunFlag := b\<rparr>) = (emit e s)\<lparr>OverrunFlag := b\<rparr>"
  "battery_filter cfg inp (s\<lparr>OverrunFlag := b\<rparr>) = (battery_filter cfg inp s)\<lparr>OverrunFlag := b\<rparr>"
  "get_currents inp (s\<lparr>OverrunFlag := b\<rparr>) = (get_currents inp s)\<lparr>OverrunFlag := b\<rparr>"
  "write_MOE m c (s\<lparr>OverrunFlag := b\<rparr>) = (write_MOE m c s)\<lparr>OverrunFlag := b\<rparr>"
  "adjust_pwm_margin cfg (s\<lparr>OverrunFlag := b\<rparr>) = (adjust_pwm_margin cfg s)\<lparr>OverrunFlag := b\<rparr>"
  by (cases m; simp add: emit_def battery_filter_def get_currents_def write_MOE_def
        adjust_pwm_margin_def Let_def)+

lemma interlock_OverrunFlag:
  "interlock cfg inp (s\<lparr>OverrunFlag := b\<rparr>) = (interlock cfg inp s)\<lparr>OverrunFlag := b\<rparr>"
  by (simp add: interlock_def Let_def stage_OverrunFlag)

lemma buzzer_OverrunFlag:
  "buzzer inp (s\<lparr>OverrunFlag := b\<rparr>) = (buzzer inp s)\<lparr>OverrunFlag := b\<rparr>"
proof (cases "buzzerFreq inp = 0")
  case silent: True
  show ?thesis
  proof (cases "buzzerPrev s = 0")
    case True
    with silent show ?thesis by (simp add: buzzer_def Let_def emit_def)
  next
    case False
    with silent show ?thesis by (simp add: buzzer_def Let_def emit_def)
  qed
next
  case freq: False
  show ?thesis
  proof (cases "(unat (buzzerTimer s + 1) div 5000) mod (unat (buzzerPattern inp) + 1) = 0")
    case gate: True
    show ?thesis
    proof (cases "buzzerPrev s = 0")
      case True
      show ?thesis
      proof (cases "uint (buzzerIdx s + 1) > uint (buzzerCount inp) + 2")
        case True
        with freq gate \<open>buzzerPrev s = 0\<close> show ?thesis
          by (simp add: buzzer_def Let_def emit_def)
      next
        case False
        with freq gate \<open>buzzerPrev s = 0\<close> show ?thesis
          by (simp add: buzzer_def Let_def emit_def)
      qed
    next
      case False
      with freq gate show ?thesis by (simp add: buzzer_def Let_def emit_def)
    qed
  next
    case closed: False
    show ?thesis
    proof (cases "buzzerPrev s = 0")
      case True
      with freq closed show ?thesis by (simp add: buzzer_def Let_def emit_def)
    next
      case False
      with freq closed show ?thesis by (simp add: buzzer_def Let_def emit_def)
    qed
  qed
qed

lemma housekeeping_OverrunFlag:
  "housekeeping cfg inp (s\<lparr>OverrunFlag := b\<rparr>) = (housekeeping cfg inp s)\<lparr>OverrunFlag := b\<rparr>"
  by (simp add: housekeeping_def stage_OverrunFlag interlock_OverrunFlag buzzer_OverrunFlag)

lemma emit_keeps:
  "offsetrlA (emit e s) = offsetrlA s" "offsetrlB (emit e s) = offsetrlB s"
  "offsetrrB (emit e s) = offsetrrB s" "offsetrrC (emit e s) = offsetrrC s"
  "offsetdcl (emit e s) = offsetdcl s" "offsetdcr (emit e s) = offsetdcr s"
  "buzzerTimer (emit e s) = buzzerTimer s" "batVoltage (emit e s) = batVoltage s"
  "batVoltageFixdt (emit e s) = batVoltageFixdt s"
  by (simp_all add: emit_def)

text \<open>
  Claim C9, amended. The handler leaves the fault code as the controller wrote it, and it
  does use it: on every tick that reaches the motor control section, the enable decision
  \<open>enableFin\<close>, which is fed to both controllers as \<open>b_motEna\<close>, is 1 exactly when
  \<open>enable\<close> is nonzero and the fault codes that both controllers left on the previous
  step are zero. A fault of either motor disables both. The output record after the tick
  is what the controller returned on these inputs. The master-output-enable bits do not
  depend on the fault codes: each is set exactly when \<open>enable\<close> is nonzero and the
  magnitude of the offset minus the sample of this tick does not exceed \<open>curDC_max\<close>.
\<close>

theorem fault_gates_enable:
  assumes "\<not> offsetcount s < 2000" and "\<not> OverrunFlag s"
  shows "\<exists>s'. DMA1_Channel1_IRQHandler cfg inp s = Some s'
     \<and> enableFin s' =
         (if enable inp \<noteq> 0 \<and> z_errCode (rtY_Left s) = 0 \<and> z_errCode (rtY_Right s) = 0
          then 1 else 0)
     \<and> b_motEna (rtU_Left s') = enableFin s'
     \<and> b_motEna (rtU_Right s') = enableFin s'
     \<and> rtY_Left s' =
         (if MOTOR_LEFT_ENA cfg
          then fst (BLDC_controller_step cfg (rtU_Left s') (rtDW_Left s)) else rtY_Left s)
     \<and> rtY_Right s' =
         (if MOTOR_RIGHT_ENA cfg
          then fst (BLDC_controller_step cfg (rtU_Right s') (rtDW_Right s)) else rtY_Right s)
     \<and> (BDTR_MOE (LEFT_TIM s') \<longleftrightarrow>
          enable inp \<noteq> 0
          \<and> ABS (sint (word_of_int (sint (offsetdcl s) - uint (dcl (adc_buffer inp))) :: 16 word))
              \<le> sint (curDC_max cfg))
     \<and> (BDTR_MOE (RIGHT_TIM s') \<longleftrightarrow>
          enable inp \<noteq> 0
          \<and> ABS (sint (word_of_int (sint (offsetdcr s) - uint (dcr (adc_buffer inp))) :: 16 word))
              \<le> sint (curDC_max cfg))"
proof -
  let ?h = "housekeeping cfg inp (emit DMA_IFCR_write s)"
  obtain s' where s': "DMA1_Channel1_IRQHandler cfg inp s = Some s'"
    and mc: "motor_control cfg inp ?h = Some s'" and no: "\<not> OverrunFlag ?h"
    using tick_actuating [OF assms] by blast
  have h: "rtY_Left ?h = rtY_Left s" "rtY_Right ?h = rtY_Right s"
      "rtDW_Left ?h = rtDW_Left s" "rtDW_Right ?h = rtDW_Right s"
    using housekeeping_entry(1) [of cfg inp s] by (simp_all add: motor_vars_def)
  note r = motor_control_result [OF no mc]
  have moe: "BDTR_MOE (LEFT_TIM s') = BDTR_MOE (LEFT_TIM ?h)"
      "BDTR_MOE (RIGHT_TIM s') = BDTR_MOE (RIGHT_TIM ?h)"
    using r(2) by (simp_all add: housekeeping_vars_def)
  have cur: "curL_DC ?h = word_of_int (sint (offsetdcl s) - uint (dcl (adc_buffer inp)))"
      "curR_DC ?h = word_of_int (sint (offsetdcr s) - uint (dcr (adc_buffer inp)))"
    by (simp_all add: housekeeping_currents emit_keeps)
  have gate: "BDTR_MOE (LEFT_TIM s') \<longleftrightarrow>
          enable inp \<noteq> 0
          \<and> ABS (sint (word_of_int (sint (offsetdcl s) - uint (dcl (adc_buffer inp))) :: 16 word))
              \<le> sint (curDC_max cfg)"
      "BDTR_MOE (RIGHT_TIM s') \<longleftrightarrow>
          enable inp \<noteq> 0
          \<and> ABS (sint (word_of_int (sint (offsetdcr s) - uint (dcr (adc_buffer inp))) :: 16 word))
              \<le> sint (curDC_max cfg)"
    unfolding moe
    using housekeeping_MOE [of cfg inp "emit DMA_IFCR_write s"] unfolding cur by auto
  show ?thesis
    using s' r(4) r(5) r(6) r(7) r(8) gate unfolding h by blast
qed

text \<open>A tick with \<open>enable\<close> set and no fault pending enables both controllers.\<close>

theorem fault_gates_enable_witness:
  "\<not> offsetcount test_state < 2000 \<and> \<not> OverrunFlag test_state
   \<and> map_option (b_motEna \<circ> rtU_Left)
       (DMA1_Channel1_IRQHandler test_config test_input test_state) = Some 1
   \<and> map_option (b_motEna \<circ> rtU_Right)
       (DMA1_Channel1_IRQHandler test_config test_input test_state) = Some 1
   \<and> map_option (BDTR_MOE \<circ> LEFT_TIM)
       (DMA1_Channel1_IRQHandler test_config test_input test_state) = Some True"
  using fault_gates_enable [of test_state test_config test_input]
  by (auto simp: test_state_def test_input_def test_ExtY_def test_config_def ABS_def)

text \<open>Claim C9 as stated makes the decision depend on \<open>enable\<close> alone. With the same
  \<open>enable\<close> and the same inputs, a fault code pending on the left motor turns the
  decision for both motors from 1 to 0, while the master-output-enable bits stay set.\<close>

theorem fault_gates_enable_counterexample:
  "map_option (b_motEna \<circ> rtU_Left)
     (DMA1_Channel1_IRQHandler test_config test_input test_state) = Some 1
   \<and> map_option (b_motEna \<circ> rtU_Right)
       (DMA1_Channel1_IRQHandler test_config test_input test_state) = Some 1
   \<and> map_option (b_motEna \<circ> rtU_Left)
       (DMA1_Channel1_IRQHandler test_config test_input
          (test_state\<lparr>rtY_Left := test_ExtY\<lparr>z_errCode := 1\<rparr>\<rparr>)) = Some 0
   \<and> map_option (b_motEna \<circ> rtU_Right)
       (DMA1_Channel1_IRQHandler test_config test_input
          (test_state\<lparr>rtY_Left := test_ExtY\<lparr>z_errCode := 1\<rparr>\<rparr>)) = Some 0
   \<and> map_option (BDTR_MOE \<circ> LEFT_TIM)
       (DMA1_Channel1_IRQHandler test_config test_input
          (test_state\<lparr>rtY_Left := test_ExtY\<lparr>z_errCode := 1\<rparr>\<rparr>)) = Some True
   \<and> map_option (BDTR_MOE \<circ> RIGHT_TIM)
       (DMA1_Channel1_IRQHandler test_config test_input
          (test_state\<lparr>rtY_Left := test_ExtY\<lparr>z_errCode := 1\<rparr>\<rparr>)) = Some True
   \<and> enable test_input = 1"
  by code_simp

text \<open>No tick brings about the flag set on an uncalibrated state: a calibration tick
  returns at line 117 and leaves the flag alone, and the counter never falls.\<close>

lemma flag_only_after_calibration:
  assumes "OverrunFlag s \<longrightarrow> \<not> offsetcount s < 2000"
    and "DMA1_Channel1_IRQHandler cfg inp s = Some s'"
  shows "OverrunFlag s' \<longrightarrow> \<not> offsetcount s' < 2000"
proof (cases "offsetcount s < 2000")
  case True
  then have "s' = calibrate inp (emit DMA_IFCR_write s)"
    using assms(2) by (simp add: tick_calibrating)
  then have "motor_vars s' = motor_vars s" by simp
  then have "OverrunFlag s' = OverrunFlag s" by (simp add: motor_vars_def)
  then show ?thesis using True assms(1) by simp
next
  case False
  then have "calibration_vars s' = calibration_vars s"
    using assms(2) by (rule tick_keeps_calibration)
  then have "offsetcount s' = offsetcount s" by (simp add: calibration_vars_def)
  then show ?thesis using False by simp
qed

text \<open>
  Claim C2, amended. The overrun check stands at the head of the motor control section,
  behind the housekeeping of lines 120 to 171, and the flag is set only there, so a tick
  that begins with the flag set is a tick after calibration. Such a tick completes and
  skips the motor control section only. Unchanged are the six ADC offsets and the sample
  counter, the flag, \<open>enableFin\<close>, the records and data of both controllers, the odometry
  counters, the previous hall codes and the six compare registers, and no controller step
  or compare write takes place. The stages ahead of the check are not skipped: every
  variable and register bit they write ends as on the tick from the same state with the
  flag clear. The six currents are the offsets minus the samples of this tick, each
  master-output-enable bit is rewritten from \<open>enable\<close> and the current of this tick,
  \<open>buzzerTimer\<close> advances by one, \<open>pwm_margin\<close> follows the control type, and the
  battery filter runs when \<open>buzzerTimer\<close> was a multiple of 1000.
\<close>

theorem overrun_skips_motor_control:
  assumes "OverrunFlag s" and "\<not> offsetcount s < 2000"
  shows "\<exists>s' t'. DMA1_Channel1_IRQHandler cfg inp s = Some s'
     \<and> DMA1_Channel1_IRQHandler cfg inp (s\<lparr>OverrunFlag := False\<rparr>) = Some t'
     \<and> motor_vars s' = motor_vars s
     \<and> calibration_vars s' = calibration_vars s
     \<and> list_all (\<lambda>e. \<not> is_actuation e) (tick_events s s')
     \<and> housekeeping_vars s' = housekeeping_vars t'
     \<and> curL_phaA s' = word_of_int (sint (offsetrlA s) - uint (rlA (adc_buffer inp)))
     \<and> curL_phaB s' = word_of_int (sint (offsetrlB s) - uint (rlB (adc_buffer inp)))
     \<and> curL_DC s' = word_of_int (sint (offsetdcl s) - uint (dcl (adc_buffer inp)))
     \<and> curR_phaB s' = word_of_int (sint (offsetrrB s) - uint (rrB (adc_buffer inp)))
     \<and> curR_phaC s' = word_of_int (sint (offsetrrC s) - uint (rrC (adc_buffer inp)))
     \<and> curR_DC s' = word_of_int (sint (offsetdcr s) - uint (dcr (adc_buffer inp)))
     \<and> (BDTR_MOE (LEFT_TIM s') \<longleftrightarrow>
          enable inp \<noteq> 0 \<and> ABS (sint (curL_DC s')) \<le> sint (curDC_max cfg))
     \<and> (BDTR_MOE (RIGHT_TIM s') \<longleftrightarrow>
          enable inp \<noteq> 0 \<and> ABS (sint (curR_DC s')) \<le> sint (curDC_max cfg))
     \<and> BDTR_write Left (BDTR_MOE (LEFT_TIM s')) \<in> set (tick_events s s')
     \<and> BDTR_write Right (BDTR_MOE (RIGHT_TIM s')) \<in> set (tick_events s s')
     \<and> buzzerTimer s' = buzzerTimer s + 1
     \<and> pwm_margin s' = (if uint (z_ctrlTypSel (rtP_Left s)) = FOC_CTRL cfg then 110 else 0)
     \<and> batVoltageFixdt s' =
         (if unat (buzzerTimer s) mod 1000 = 0
          then filtLowPass32 cfg (batt1 (adc_buffer inp)) (batVoltageFixdt s)
          else batVoltageFixdt s)
     \<and> batVoltage s' =
         (if unat (buzzerTimer s) mod 1000 = 0
          then word_of_int
                 (sint (filtLowPass32 cfg (batt1 (adc_buffer inp)) (batVoltageFixdt s))
                    div 2 ^ 16)
          else batVoltage s)"
proof -
  let ?e = "emit DMA_IFCR_write s"
  let ?h = "housekeeping cfg inp ?e"
  let ?s0 = "s\<lparr>OverrunFlag := False\<rparr>"
  have s': "DMA1_Channel1_IRQHandler cfg inp s = Some ?h"
    using assms by (simp add: tick_overrun)
  have "\<not> offsetcount ?s0 < 2000" using assms(2) by simp
  then have run0: "DMA1_Channel1_IRQHandler cfg inp ?s0 =
      motor_control cfg inp (housekeeping cfg inp (emit DMA_IFCR_write ?s0))"
    by (rule tick_running)
  obtain t' where t': "DMA1_Channel1_IRQHandler cfg inp ?s0 = Some t'"
    using tick_total by blast
  have "housekeeping_vars t' = housekeeping_vars (housekeeping cfg inp (emit DMA_IFCR_write ?s0))"
    using t' unfolding run0 by (rule motor_control_keeps(2))
  also have "housekeeping cfg inp (emit DMA_IFCR_write ?s0) = ?h\<lparr>OverrunFlag := False\<rparr>"
    by (simp only: stage_OverrunFlag(1) housekeeping_OverrunFlag)
  also have "housekeeping_vars (?h\<lparr>OverrunFlag := False\<rparr>) = housekeeping_vars ?h"
    by simp
  finally have same: "housekeeping_vars ?h = housekeeping_vars t'" by simp
  obtain bz where bz: "hw_trace ?h = hw_trace s @
       [DMA_IFCR_write, BDTR_write Left (BDTR_MOE (LEFT_TIM ?h)),
        BDTR_write Right (BDTR_MOE (RIGHT_TIM ?h))] @ bz"
      "set bz \<subseteq> {BUZZER_toggle, BUZZER_reset}"
    using housekeeping_entry_trace [of cfg inp s] by blast
  have ev: "tick_events s ?h =
       [DMA_IFCR_write, BDTR_write Left (BDTR_MOE (LEFT_TIM ?h)),
        BDTR_write Right (BDTR_MOE (RIGHT_TIM ?h))] @ bz"
    using bz(1) by (rule tick_events_append)
  have "\<forall>e \<in> set bz. \<not> is_actuation e" using bz(2) by auto
  then have quiet: "list_all (\<lambda>e. \<not> is_actuation e) (tick_events s ?h)"
    unfolding ev by (simp add: list_all_iff)
  have writes: "BDTR_write Left (BDTR_MOE (LEFT_TIM ?h)) \<in> set (tick_events s ?h)"
      "BDTR_write Right (BDTR_MOE (RIGHT_TIM ?h)) \<in> set (tick_events s ?h)"
    unfolding ev by simp_all
  have frame: "motor_vars ?h = motor_vars s" "calibration_vars ?h = calibration_vars s"
    by (rule housekeeping_entry)+
  have cur: "curL_phaA ?h = word_of_int (sint (offsetrlA s) - uint (rlA (adc_buffer inp)))"
      "curL_phaB ?h = word_of_int (sint (offsetrlB s) - uint (rlB (adc_buffer inp)))"
      "curL_DC ?h = word_of_int (sint (offsetdcl s) - uint (dcl (adc_buffer inp)))"
      "curR_phaB ?h = word_of_int (sint (offsetrrB s) - uint (rrB (adc_buffer inp)))"
      "curR_phaC ?h = word_of_int (sint (offsetrrC s) - uint (rrC (adc_buffer inp)))"
      "curR_DC ?h = word_of_int (sint (offsetdcr s) - uint (dcr (adc_buffer inp)))"
    by (simp_all add: housekeeping_phase_currents housekeeping_currents emit_keeps)
  have gate: "BDTR_MOE (LEFT_TIM ?h) \<longleftrightarrow>
          enable inp \<noteq> 0 \<and> ABS (sint (curL_DC ?h)) \<le> sint (curDC_max cfg)"
      "BDTR_MOE (RIGHT_TIM ?h) \<longleftrightarrow>
          enable inp \<noteq> 0 \<and> ABS (sint (curR_DC ?h)) \<le> sint (curDC_max cfg)"
    using housekeeping_MOE [of cfg inp ?e] by auto
  have timer: "buzzerTimer ?h = buzzerTimer s + 1"
    by (simp add: housekeeping_timer emit_keeps)
  have margin:
    "pwm_margin ?h = (if uint (z_ctrlTypSel (rtP_Left s)) = FOC_CTRL cfg then 110 else 0)"
    by (rule housekeeping_entry(3))
  have bat: "batVoltageFixdt ?h =
         (if unat (buzzerTimer s) mod 1000 = 0
          then filtLowPass32 cfg (batt1 (adc_buffer inp)) (batVoltageFixdt s)
          else batVoltageFixdt s)"
      "batVoltage ?h =
         (if unat (buzzerTimer s) mod 1000 = 0
          then word_of_int
                 (sint (filtLowPass32 cfg (batt1 (adc_buffer inp)) (batVoltageFixdt s))
                    div 2 ^ 16)
          else batVoltage s)"
    by (simp_all add: housekeeping_battery emit_keeps)
  show ?thesis
    using s' t' frame quiet same cur gate writes timer margin bat by blast
qed

text \<open>An overrun tick on the calibrated state: the compare registers and the counters
  stay, the buzzer timer and the left current move.\<close>

theorem overrun_skips_motor_control_witness:
  "OverrunFlag (test_state\<lparr>OverrunFlag := True\<rparr>)
   \<and> \<not> offsetcount (test_state\<lparr>OverrunFlag := True\<rparr>) < 2000
   \<and> map_option motor_vars
       (DMA1_Channel1_IRQHandler test_config noisy_input (test_state\<lparr>OverrunFlag := True\<rparr>))
       = Some (motor_vars (test_state\<lparr>OverrunFlag := True\<rparr>))
   \<and> map_option offsetrlA
       (DMA1_Channel1_IRQHandler test_config noisy_input (test_state\<lparr>OverrunFlag := True\<rparr>))
       = Some 2000
   \<and> map_option buzzerTimer
       (DMA1_Channel1_IRQHandler test_config noisy_input (test_state\<lparr>OverrunFlag := True\<rparr>))
       = Some 2
   \<and> map_option curL_DC
       (DMA1_Channel1_IRQHandler test_config noisy_input (test_state\<lparr>OverrunFlag := True\<rparr>))
       = Some 850"
  using overrun_skips_motor_control
    [of "test_state\<lparr>OverrunFlag := True\<rparr>" test_config noisy_input]
  by (auto simp: test_state_def calibration_vars_def noisy_input_def test_input_def)

text \<open>Claim C2 as stated leaves all observable state unchanged. On an overrun tick after
  calibration the buzzer timer advances, the current is measured and the interlock bit is
  written.\<close>

theorem overrun_skip_counterexample:
  "OverrunFlag (test_state\<lparr>OverrunFlag := True\<rparr>)
   \<and> \<not> offsetcount (test_state\<lparr>OverrunFlag := True\<rparr>) < 2000
   \<and> buzzerTimer (test_state\<lparr>OverrunFlag := True\<rparr>) = 1
   \<and> map_option buzzerTimer
       (DMA1_Channel1_IRQHandler test_config noisy_input (test_state\<lparr>OverrunFlag := True\<rparr>))
       = Some 2
   \<and> curL_DC (test_state\<lparr>OverrunFlag := True\<rparr>) = 0
   \<and> map_option curL_DC
       (DMA1_Channel1_IRQHandler test_config noisy_input (test_state\<lparr>OverrunFlag := True\<rparr>))
       = Some 850
   \<and> \<not> BDTR_MOE (LEFT_TIM (test_state\<lparr>OverrunFlag := True\<rparr>))
   \<and> map_option (BDTR_MOE \<circ> LEFT_TIM)
       (DMA1_Channel1_IRQHandler test_config noisy_input (test_state\<lparr>OverrunFlag := True\<rparr>))
       = Some True"
  by code_simp

subsection \<open>Duty clamp and order of the writes\<close>

lemma uint_pwm_res: "uint pwm_res = 2000"
  by (simp add: pwm_res_def PWM_FREQ_def signed_divide_int_def)

lemma CLAMP_window: "lo \<le> hi \<Longrightarrow> lo \<le> CLAMP x lo hi \<and> CLAMP x lo hi \<le> hi"
  by (simp add: CLAMP_def)

lemma duty_is_clamped:
  assumes "mg = 0 \<or> mg = 110"
  shows "clamped_duty mg u (duty mg u)"
proof -
  let ?c = "CLAMP (sint u + uint pwm_res sdiv 2) (sint mg) (uint pwm_res - sint mg)"
  have mg: "0 \<le> sint mg" "sint mg \<le> uint pwm_res - sint mg" "uint pwm_res - sint mg \<le> 2000"
    using assms by (auto simp: uint_pwm_res)
  have w: "sint mg \<le> ?c" "?c \<le> uint pwm_res - sint mg"
    using CLAMP_window [OF mg(2)] by simp_all
  have "0 \<le> ?c" "?c < 65536" using w mg by linarith+
  then have "uint (word_of_int ?c :: 16 word) = ?c" by (rule uint_word_of_int_16)
  then have "uint (duty mg u) = ?c" by (simp only: duty_def)
  then show ?thesis using w by (simp only: clamped_duty_def in_window_def)
qed

lemma tick_actuating_trace:
  assumes "\<not> offsetcount s < 2000" and "\<not> OverrunFlag s"
    and "DMA1_Channel1_IRQHandler cfg inp s = Some s'"
  shows "\<exists>bz. tick_events s s' =
       ([DMA_IFCR_write, BDTR_write Left (BDTR_MOE (LEFT_TIM s')),
         BDTR_write Right (BDTR_MOE (RIGHT_TIM s'))] @ bz)
       @ ((if MOTOR_LEFT_ENA cfg then [Controller_step Left] else [])
          @ [Compare_write Left U (TIM_U (LEFT_TIM s')), Compare_write Left V (TIM_V (LEFT_TIM s')),
             Compare_write Left W (TIM_W (LEFT_TIM s'))]
          @ (if MOTOR_RIGHT_ENA cfg then [Controller_step Right] else [])
          @ [Compare_write Right U (TIM_U (RIGHT_TIM s')),
             Compare_write Right V (TIM_V (RIGHT_TIM s')),
             Compare_write Right W (TIM_W (RIGHT_TIM s'))])
     \<and> set bz \<subseteq> {BUZZER_toggle, BUZZER_reset}"
proof -
  let ?h = "housekeeping cfg inp (emit DMA_IFCR_write s)"
  have mc: "motor_control cfg inp ?h = Some s'" and no: "\<not> OverrunFlag ?h"
    using tick_actuating [OF assms(1,2), of cfg inp] assms(3) by auto
  obtain bz where bz: "hw_trace ?h = hw_trace s @
       [DMA_IFCR_write, BDTR_write Left (BDTR_MOE (LEFT_TIM ?h)),
        BDTR_write Right (BDTR_MOE (RIGHT_TIM ?h))] @ bz"
      "set bz \<subseteq> {BUZZER_toggle, BUZZER_reset}"
    using housekeeping_entry_trace [of cfg inp s] by blast
  have moe: "BDTR_MOE (LEFT_TIM ?h) = BDTR_MOE (LEFT_TIM s')"
      "BDTR_MOE (RIGHT_TIM ?h) = BDTR_MOE (RIGHT_TIM s')"
    using motor_control_result(2) [OF no mc] by (simp_all add: housekeeping_vars_def)
  have "hw_trace s' = hw_trace s @
       ([DMA_IFCR_write, BDTR_write Left (BDTR_MOE (LEFT_TIM s')),
         BDTR_write Right (BDTR_MOE (RIGHT_TIM s'))] @ bz)
       @ ((if MOTOR_LEFT_ENA cfg then [Controller_step Left] else [])
          @ [Compare_write Left U (TIM_U (LEFT_TIM s')), Compare_write Left V (TIM_V (LEFT_TIM s')),
             Compare_write Left W (TIM_W (LEFT_TIM s'))]
          @ (if MOTOR_RIGHT_ENA cfg then [Controller_step Right] else [])
          @ [Compare_write Right U (TIM_U (RIGHT_TIM s')),
             Compare_write Right V (TIM_V (RIGHT_TIM s')),
             Compare_write Right W (TIM_W (RIGHT_TIM s'))])"
    unfolding motor_control_result(15) [OF no mc] bz(1) moe by simp
  then show ?thesis using bz(2) tick_events_append by blast
qed

lemma tick_quiet_trace:
  assumes "offsetcount s < 2000 \<or> OverrunFlag s"
    and "DMA1_Channel1_IRQHandler cfg inp s = Some s'"
  shows "\<exists>evs. tick_events s s' = evs
     \<and> set evs \<subseteq> {DMA_IFCR_write, BUZZER_toggle, BUZZER_reset} \<union> range (BDTR_write Left)
         \<union> range (BDTR_write Right)"
proof (cases "offsetcount s < 2000")
  case True
  have "hw_trace (calibrate inp (emit DMA_IFCR_write s)) = hw_trace s @ [DMA_IFCR_write]"
    by simp
  then have "tick_events s (calibrate inp (emit DMA_IFCR_write s)) = [DMA_IFCR_write]"
    by (rule tick_events_append)
  then show ?thesis using True assms(2) by (auto simp: tick_calibrating)
next
  case False
  let ?h = "housekeeping cfg inp (emit DMA_IFCR_write s)"
  have s': "s' = ?h" using False assms by (simp add: tick_overrun)
  obtain bz where bz: "hw_trace ?h = hw_trace s @
       [DMA_IFCR_write, BDTR_write Left (BDTR_MOE (LEFT_TIM ?h)),
        BDTR_write Right (BDTR_MOE (RIGHT_TIM ?h))] @ bz"
      "set bz \<subseteq> {BUZZER_toggle, BUZZER_reset}"
    using housekeeping_entry_trace [of cfg inp s] by blast
  have "tick_events s ?h =
       [DMA_IFCR_write, BDTR_write Left (BDTR_MOE (LEFT_TIM ?h)),
        BDTR_write Right (BDTR_MOE (RIGHT_TIM ?h))] @ bz"
    using bz(1) by (rule tick_events_append)
  then show ?thesis using bz(2) unfolding s' by auto
qed


text \<open>
  Claim C3. Each value written to a compare register is the controller output moved by
  \<open>pwm_res / 2\<close> and clamped into \<open>[pwm_margin, pwm_res - pwm_margin]\<close>, where the
  margin is 110 when the control type is \<open>FOC_CTRL\<close> and 0 otherwise. Every tick
  completes, and every compare write of a tick carries a value inside the window.
\<close>

theorem duty_clamp:
  fixes cfg :: "'dw config" and s :: "'dw state"
  defines "mg \<equiv> if uint (z_ctrlTypSel (rtP_Left s)) = FOC_CTRL cfg then 110 else 0"
  shows "\<exists>s'. DMA1_Channel1_IRQHandler cfg inp s = Some s'
     \<and> list_all (clamped_write mg) (tick_events s s')
     \<and> (\<not> offsetcount s < 2000 \<and> \<not> OverrunFlag s \<longrightarrow>
          pwm_margin s' = mg
          \<and> clamped_duty mg (DC_phaA (rtY_Left s')) (TIM_U (LEFT_TIM s'))
          \<and> clamped_duty mg (DC_phaB (rtY_Left s')) (TIM_V (LEFT_TIM s'))
          \<and> clamped_duty mg (DC_phaC (rtY_Left s')) (TIM_W (LEFT_TIM s'))
          \<and> clamped_duty mg (DC_phaA (rtY_Right s')) (TIM_U (RIGHT_TIM s'))
          \<and> clamped_duty mg (DC_phaB (rtY_Right s')) (TIM_V (RIGHT_TIM s'))
          \<and> clamped_duty mg (DC_phaC (rtY_Right s')) (TIM_W (RIGHT_TIM s')))"
proof -
  obtain s' where s': "DMA1_Channel1_IRQHandler cfg inp s = Some s'"
    using tick_total by blast
  have mg: "mg = 0 \<or> mg = 110" by (simp add: mg_def)
  show ?thesis
  proof (cases "\<not> offsetcount s < 2000 \<and> \<not> OverrunFlag s")
    case True
    let ?h = "housekeeping cfg inp (emit DMA_IFCR_write s)"
    have mc: "motor_control cfg inp ?h = Some s'" and no: "\<not> OverrunFlag ?h"
      using tick_actuating [of s cfg inp] True s' by auto
    have hm: "pwm_margin ?h = mg" by (simp add: housekeeping_entry(3) mg_def)
    note r = motor_control_result [OF no mc]
    have m': "pwm_margin s' = mg" using r(2) hm by (simp add: housekeeping_vars_def)
    have regs: "clamped_duty mg (DC_phaA (rtY_Left s')) (TIM_U (LEFT_TIM s'))"
        "clamped_duty mg (DC_phaB (rtY_Left s')) (TIM_V (LEFT_TIM s'))"
        "clamped_duty mg (DC_phaC (rtY_Left s')) (TIM_W (LEFT_TIM s'))"
        "clamped_duty mg (DC_phaA (rtY_Right s')) (TIM_U (RIGHT_TIM s'))"
        "clamped_duty mg (DC_phaB (rtY_Right s')) (TIM_V (RIGHT_TIM s'))"
        "clamped_duty mg (DC_phaC (rtY_Right s')) (TIM_W (RIGHT_TIM s'))"
      unfolding r(9-14) hm by (rule duty_is_clamped [OF mg])+
    then have win: "in_window mg (TIM_U (LEFT_TIM s'))" "in_window mg (TIM_V (LEFT_TIM s'))"
        "in_window mg (TIM_W (LEFT_TIM s'))" "in_window mg (TIM_U (RIGHT_TIM s'))"
        "in_window mg (TIM_V (RIGHT_TIM s'))" "in_window mg (TIM_W (RIGHT_TIM s'))"
      by (simp_all add: clamped_duty_def)
    obtain bz where ev: "tick_events s s' =
       ([DMA_IFCR_write, BDTR_write Left (BDTR_MOE (LEFT_TIM s')),
         BDTR_write Right (BDTR_MOE (RIGHT_TIM s'))] @ bz)
       @ ((if MOTOR_LEFT_ENA cfg then [Controller_step Left] else [])
          @ [Compare_write Left U (TIM_U (LEFT_TIM s')), Compare_write Left V (TIM_V (LEFT_TIM s')),
             Compare_write Left W (TIM_W (LEFT_TIM s'))]
          @ (if MOTOR_RIGHT_ENA cfg then [Controller_step Right] else [])
          @ [Compare_write Right U (TIM_U (RIGHT_TIM s')),
             Compare_write Right V (TIM_V (RIGHT_TIM s')),
             Compare_write Right W (TIM_W (RIGHT_TIM s'))])"
      and bz: "set bz \<subseteq> {BUZZER_toggle, BUZZER_reset}"
      using tick_actuating_trace [of s cfg inp s'] True s' by blast
    have "\<forall>e \<in> set bz. clamped_write mg e" using bz by auto
    then have "list_all (clamped_write mg) (tick_events s s')"
      unfolding ev using win by (auto simp: list_all_iff)
    then show ?thesis using s' m' regs by blast
  next
    case False
    then have q: "offsetcount s < 2000 \<or> OverrunFlag s" by blast
    have "set (tick_events s s') \<subseteq> {DMA_IFCR_write, BUZZER_toggle, BUZZER_reset}
        \<union> range (BDTR_write Left) \<union> range (BDTR_write Right)"
      using tick_quiet_trace [OF q s'] by simp
    then have "\<forall>e \<in> set (tick_events s s'). clamped_write mg e" by auto
    then have "list_all (clamped_write mg) (tick_events s s')" by (simp add: list_all_iff)
    then show ?thesis using s' False by blast
  qed
qed

text \<open>With the FOC control type, the outputs 300, -1200 and 1500 are written as 1300, 110
  and 1890.\<close>

theorem duty_clamp_witness:
  "\<not> offsetcount test_state < 2000 \<and> \<not> OverrunFlag test_state
   \<and> map_option (TIM_U \<circ> LEFT_TIM)
       (DMA1_Channel1_IRQHandler test_config test_input test_state) = Some 1300
   \<and> map_option (TIM_V \<circ> LEFT_TIM)
       (DMA1_Channel1_IRQHandler test_config test_input test_state) = Some 110
   \<and> map_option (TIM_W \<circ> LEFT_TIM)
       (DMA1_Channel1_IRQHandler test_config test_input test_state) = Some 1890
   \<and> map_option pwm_margin
       (DMA1_Channel1_IRQHandler test_config test_input test_state) = Some 110"
proof -
  have ev: "map_option (TIM_U \<circ> LEFT_TIM)
       (DMA1_Channel1_IRQHandler test_config test_input test_state) = Some 1300
   \<and> map_option (TIM_V \<circ> LEFT_TIM)
       (DMA1_Channel1_IRQHandler test_config test_input test_state) = Some 110
   \<and> map_option (TIM_W \<circ> LEFT_TIM)
       (DMA1_Channel1_IRQHandler test_config test_input test_state) = Some 1890"
    by code_simp
  show ?thesis
    using duty_clamp [of test_config test_input test_state] ev
    by (auto simp: test_state_def test_config_def)
qed

text \<open>
  Claim C7. On every tick that reaches the motor control section, the events of the tick
  split into a first part, which holds the writes of both master-output-enable bits and no
  controller step or compare write, and a second part, which holds the controller steps
  and the six compare writes and no write of an enable bit. The bit written for a motor
  is clear when its current exceeds the limit or \<open>enable\<close> is zero: the stage is disarmed
  in the same tick, ahead of the controller step and of the duty write.
\<close>

theorem interlock_before_actuation:
  assumes "\<not> offsetcount s < 2000" and "\<not> OverrunFlag s"
  shows "\<exists>s' pre post. DMA1_Channel1_IRQHandler cfg inp s = Some s'
     \<and> tick_events s s' = pre @ post
     \<and> BDTR_write Left (BDTR_MOE (LEFT_TIM s')) \<in> set pre
     \<and> BDTR_write Right (BDTR_MOE (RIGHT_TIM s')) \<in> set pre
     \<and> (BDTR_MOE (LEFT_TIM s') \<longleftrightarrow>
          \<not> (ABS (sint (curL_DC s')) > sint (curDC_max cfg) \<or> enable inp = 0))
     \<and> (BDTR_MOE (RIGHT_TIM s') \<longleftrightarrow>
          \<not> (ABS (sint (curR_DC s')) > sint (curDC_max cfg) \<or> enable inp = 0))
     \<and> list_all (\<lambda>e. \<not> is_actuation e) pre
     \<and> list_all is_actuation post
     \<and> list_all (\<lambda>e. \<not> is_interlock e) post
     \<and> Compare_write Left U (TIM_U (LEFT_TIM s')) \<in> set post
     \<and> Compare_write Left V (TIM_V (LEFT_TIM s')) \<in> set post
     \<and> Compare_write Left W (TIM_W (LEFT_TIM s')) \<in> set post
     \<and> Compare_write Right U (TIM_U (RIGHT_TIM s')) \<in> set post
     \<and> Compare_write Right V (TIM_V (RIGHT_TIM s')) \<in> set post
     \<and> Compare_write Right W (TIM_W (RIGHT_TIM s')) \<in> set post
     \<and> (MOTOR_LEFT_ENA cfg \<longrightarrow> Controller_step Left \<in> set post)
     \<and> (MOTOR_RIGHT_ENA cfg \<longrightarrow> Controller_step Right \<in> set post)"
proof -
  let ?h = "housekeeping cfg inp (emit DMA_IFCR_write s)"
  obtain s' where s': "DMA1_Channel1_IRQHandler cfg inp s = Some s'"
    and mc: "motor_control cfg inp ?h = Some s'" and no: "\<not> OverrunFlag ?h"
    using tick_actuating [OF assms] by blast
  define post where "post =
       (if MOTOR_LEFT_ENA cfg then [Controller_step Left] else [])
          @ [Compare_write Left U (TIM_U (LEFT_TIM s')), Compare_write Left V (TIM_V (LEFT_TIM s')),
             Compare_write Left W (TIM_W (LEFT_TIM s'))]
          @ (if MOTOR_RIGHT_ENA cfg then [Controller_step Right] else [])
          @ [Compare_write Right U (TIM_U (RIGHT_TIM s')),
             Compare_write Right V (TIM_V (RIGHT_TIM s')),
             Compare_write Right W (TIM_W (RIGHT_TIM s'))]"
  obtain bz where ev: "tick_events s s' =
       ([DMA_IFCR_write, BDTR_write Left (BDTR_MOE (LEFT_TIM s')),
         BDTR_write Right (BDTR_MOE (RIGHT_TIM s'))] @ bz) @ post"
    and bz: "set bz \<subseteq> {BUZZER_toggle, BUZZER_reset}"
    using tick_actuating_trace [OF assms s'] unfolding post_def by blast
  define pre where "pre = [DMA_IFCR_write, BDTR_write Left (BDTR_MOE (LEFT_TIM s')),
         BDTR_write Right (BDTR_MOE (RIGHT_TIM s'))] @ bz"
  have "\<forall>e \<in> set bz. \<not> is_actuation e" using bz by auto
  then have pre_ok: "list_all (\<lambda>e. \<not> is_actuation e) pre"
    by (simp add: pre_def list_all_iff)
  have pre_in: "BDTR_write Left (BDTR_MOE (LEFT_TIM s')) \<in> set pre"
      "BDTR_write Right (BDTR_MOE (RIGHT_TIM s')) \<in> set pre"
    by (simp_all add: pre_def)
  have post_ok: "list_all is_actuation post" "list_all (\<lambda>e. \<not> is_interlock e) post"
    by (simp_all add: post_def)
  have post_in: "Compare_write Left U (TIM_U (LEFT_TIM s')) \<in> set post"
      "Compare_write Left V (TIM_V (LEFT_TIM s')) \<in> set post"
      "Compare_write Left W (TIM_W (LEFT_TIM s')) \<in> set post"
      "Compare_write Right U (TIM_U (RIGHT_TIM s')) \<in> set post"
      "Compare_write Right V (TIM_V (RIGHT_TIM s')) \<in> set post"
      "Compare_write Right W (TIM_W (RIGHT_TIM s')) \<in> set post"
      "MOTOR_LEFT_ENA cfg \<longrightarrow> Controller_step Left \<in> set post"
      "MOTOR_RIGHT_ENA cfg \<longrightarrow> Controller_step Right \<in> set post"
    by (simp_all add: post_def)
  have same: "curL_DC s' = curL_DC ?h" "curR_DC s' = curR_DC ?h"
      "BDTR_MOE (LEFT_TIM s') = BDTR_MOE (LEFT_TIM ?h)"
      "BDTR_MOE (RIGHT_TIM s') = BDTR_MOE (RIGHT_TIM ?h)"
    using motor_control_result(2) [OF no mc] by (simp_all add: housekeeping_vars_def)
  have gate: "BDTR_MOE (LEFT_TIM s') \<longleftrightarrow>
          \<not> (ABS (sint (curL_DC s')) > sint (curDC_max cfg) \<or> enable inp = 0)"
      "BDTR_MOE (RIGHT_TIM s') \<longleftrightarrow>
          \<not> (ABS (sint (curR_DC s')) > sint (curDC_max cfg) \<or> enable inp = 0)"
    unfolding same by (rule housekeeping_MOE)+
  have "tick_events s s' = pre @ post" using ev by (simp only: pre_def)
  then show ?thesis
    using s' pre_in gate pre_ok post_ok post_in by blast
qed

text \<open>The events of one tick on the calibrated state, in order.\<close>

theorem interlock_before_actuation_witness:
  "\<not> offsetcount test_state < 2000 \<and> \<not> OverrunFlag test_state
   \<and> map_option (tick_events test_state)
       (DMA1_Channel1_IRQHandler test_config noisy_input test_state) =
       Some [DMA_IFCR_write, BDTR_write Left True, BDTR_write Right False,
             Controller_step Left, Compare_write Left U 1300, Compare_write Left V 110,
             Compare_write Left W 1890,
             Controller_step Right, Compare_write Right U 1300, Compare_write Right V 110,
             Compare_write Right W 1890]"
proof -
  have ev: "map_option (tick_events test_state)
       (DMA1_Channel1_IRQHandler test_config noisy_input test_state) =
       Some [DMA_IFCR_write, BDTR_write Left True, BDTR_write Right False,
             Controller_step Left, Compare_write Left U 1300, Compare_write Left V 110,
             Compare_write Left W 1890,
             Controller_step Right, Compare_write Right U 1300, Compare_write Right V 110,
             Compare_write Right W 1890]"
    by code_simp
  show ?thesis
    using interlock_before_actuation [of test_state test_config noisy_input] ev
    by (auto simp: test_state_def)
qed

subsection \<open>Odometry\<close>

lemma wrapped_bound: "uint (word_of_int (x mod 9000) :: 16 word) < 9000"
proof -
  have "0 \<le> x mod 9000" "x mod 9000 < 9000" by simp_all
  then have "uint (word_of_int (x mod 9000) :: 16 word) = x mod 9000"
    by (intro uint_word_of_int_16) linarith+
  then show ?thesis by simp
qed

lemma wrapped_exact:
  assumes "0 \<le> w" "w < 9000" "- 2 \<le> d" "d \<le> 2"
  shows "uint (word_of_int (sint (word_of_int (w + d) :: 16 word) mod 9000) :: 16 word)
           = (w + d) mod 9000"
proof -
  have "sint (word_of_int (w + d) :: 16 word) = w + d"
    using assms by (intro sint_word_of_int_16) linarith+
  moreover have "0 \<le> (w + d) mod 9000" "(w + d) mod 9000 < 9000" by simp_all
  then have "uint (word_of_int ((w + d) mod 9000) :: 16 word) = (w + d) mod 9000"
    by (intro uint_word_of_int_16) linarith+
  ultimately show ?thesis by simp
qed

lemma tick_quiet_motor_vars:
  assumes "offsetcount s < 2000 \<or> OverrunFlag s"
    and "DMA1_Channel1_IRQHandler cfg inp s = Some s'"
  shows "motor_vars s' = motor_vars s"
proof (cases "offsetcount s < 2000")
  case True
  then show ?thesis using assms(2) by (auto simp: tick_calibrating)
next
  case False
  then show ?thesis using assms by (auto simp: tick_overrun housekeeping_entry)
qed

lemma tick_odometry:
  assumes "\<not> offsetcount s < 2000" and "\<not> OverrunFlag s"
    and "DMA1_Channel1_IRQHandler cfg inp s = Some s'"
  shows "\<exists>enc d.
      hall_position (hall (LEFT_HALL_U inp)) (hall (LEFT_HALL_V inp)) (hall (LEFT_HALL_W inp))
        = Some enc
    \<and> enc \<le> 5
    \<and> calc_encoder_ticks (enc_val_previous_left s) enc = Some d
    \<and> sint d \<in> {- 2, - 1, 0, 1, 2}
    \<and> wheel_left_ticks s' =
        word_of_int (sint (word_of_int (uint (wheel_left_ticks s) + sint d) :: 16 word) mod 9000)
    \<and> enc_val_previous_left s' = enc"
  and "\<exists>enc d.
      hall_position (hall (RIGHT_HALL_U inp)) (hall (RIGHT_HALL_V inp)) (hall (RIGHT_HALL_W inp))
        = Some enc
    \<and> enc \<le> 5
    \<and> calc_encoder_ticks (enc_val_previous_right s) enc = Some d
    \<and> sint d \<in> {- 2, - 1, 0, 1, 2}
    \<and> wheel_right_ticks s' =
        word_of_int (sint (word_of_int (uint (wheel_right_ticks s) - sint d) :: 16 word) mod 9000)
    \<and> enc_val_previous_right s' = enc"
proof -
  let ?h = "housekeeping cfg inp (emit DMA_IFCR_write s)"
  have mc: "motor_control cfg inp ?h = Some s'" and no: "\<not> OverrunFlag ?h"
    using tick_actuating [OF assms(1,2), of cfg inp] assms(3) by auto
  have h: "wheel_left_ticks ?h = wheel_left_ticks s"
      "enc_val_previous_left ?h = enc_val_previous_left s"
      "wheel_right_ticks ?h = wheel_right_ticks s"
      "enc_val_previous_right ?h = enc_val_previous_right s"
    using housekeeping_entry(1) [of cfg inp s] by (simp_all add: motor_vars_def)
  show "\<exists>enc d.
      hall_position (hall (LEFT_HALL_U inp)) (hall (LEFT_HALL_V inp)) (hall (LEFT_HALL_W inp))
        = Some enc
    \<and> enc \<le> 5
    \<and> calc_encoder_ticks (enc_val_previous_left s) enc = Some d
    \<and> sint d \<in> {- 2, - 1, 0, 1, 2}
    \<and> wheel_left_ticks s' =
        word_of_int (sint (word_of_int (uint (wheel_left_ticks s) + sint d) :: 16 word) mod 9000)
    \<and> enc_val_previous_left s' = enc"
    using motor_control_odometry(1) [OF no mc] unfolding h .
  show "\<exists>enc d.
      hall_position (hall (RIGHT_HALL_U inp)) (hall (RIGHT_HALL_V inp)) (hall (RIGHT_HALL_W inp))
        = Some enc
    \<and> enc \<le> 5
    \<and> calc_encoder_ticks (enc_val_previous_right s) enc = Some d
    \<and> sint d \<in> {- 2, - 1, 0, 1, 2}
    \<and> wheel_right_ticks s' =
        word_of_int (sint (word_of_int (uint (wheel_right_ticks s) - sint d) :: 16 word) mod 9000)
    \<and> enc_val_previous_right s' = enc"
    using motor_control_odometry(2) [OF no mc] unfolding h .
qed

lemma tick_keeps_bound:
  assumes "uint (wheel_left_ticks s) < 9000" and "uint (wheel_right_ticks s) < 9000"
    and "DMA1_Channel1_IRQHandler cfg inp s = Some s'"
  shows "uint (wheel_left_ticks s') < 9000 \<and> uint (wheel_right_ticks s') < 9000"
proof (cases "offsetcount s < 2000 \<or> OverrunFlag s")
  case True
  then have "motor_vars s' = motor_vars s" using assms(3) by (rule tick_quiet_motor_vars)
  then show ?thesis using assms(1,2) by (simp add: motor_vars_def)
next
  case False
  then have a: "\<not> offsetcount s < 2000" "\<not> OverrunFlag s" by simp_all
  show ?thesis
    using tick_odometry [OF a assms(3)] wrapped_bound by auto
qed

lemma run_keeps_bound:
  "uint (wheel_left_ticks s) < 9000 \<Longrightarrow> uint (wheel_right_ticks s) < 9000 \<Longrightarrow>
     \<exists>s'. run cfg s inps = Some s'
       \<and> uint (wheel_left_ticks s') < 9000 \<and> uint (wheel_right_ticks s') < 9000"
proof (induction inps arbitrary: s)
  case Nil
  then show ?case by simp
next
  case (Cons inp inps)
  obtain s1 where s1: "DMA1_Channel1_IRQHandler cfg inp s = Some s1"
    using tick_total by blast
  have "uint (wheel_left_ticks s1) < 9000 \<and> uint (wheel_right_ticks s1) < 9000"
    using Cons.prems s1 by (rule tick_keeps_bound)
  then obtain s' where "run cfg s1 inps = Some s'"
      "uint (wheel_left_ticks s') < 9000" "uint (wheel_right_ticks s') < 9000"
    using Cons.IH by blast
  then show ?case using s1 by simp
qed

text \<open>
  Claim C4. From counters inside \<open>[0, 9000)\<close>, every run of ticks, whatever the hall lines
  read, completes with both counters inside \<open>[0, 9000)\<close>. On a tick that reaches the motor
  control section each motor's delta is one of -2, -1, 0, 1, 2; the left counter becomes
  the old value plus the delta modulo 9000, the right counter the old value minus the
  delta modulo 9000.
\<close>

theorem odometry_wrap:
  assumes "uint (wheel_left_ticks s) < 9000" and "uint (wheel_right_ticks s) < 9000"
  shows "(\<exists>s'. run cfg s inps = Some s'
            \<and> uint (wheel_left_ticks s') < 9000 \<and> uint (wheel_right_ticks s') < 9000)
     \<and> (\<not> offsetcount s < 2000 \<and> \<not> OverrunFlag s \<longrightarrow>
          (\<exists>s' encl dl encr dr. DMA1_Channel1_IRQHandler cfg inp s = Some s'
             \<and> hall_position (hall (LEFT_HALL_U inp)) (hall (LEFT_HALL_V inp))
                 (hall (LEFT_HALL_W inp)) = Some encl
             \<and> calc_encoder_ticks (enc_val_previous_left s) encl = Some dl
             \<and> hall_position (hall (RIGHT_HALL_U inp)) (hall (RIGHT_HALL_V inp))
                 (hall (RIGHT_HALL_W inp)) = Some encr
             \<and> calc_encoder_ticks (enc_val_previous_right s) encr = Some dr
             \<and> sint dl \<in> {- 2, - 1, 0, 1, 2} \<and> sint dr \<in> {- 2, - 1, 0, 1, 2}
             \<and> uint (wheel_left_ticks s') = (uint (wheel_left_ticks s) + sint dl) mod 9000
             \<and> uint (wheel_right_ticks s') = (uint (wheel_right_ticks s) - sint dr) mod 9000
             \<and> enc_val_previous_left s' = encl \<and> enc_val_previous_right s' = encr))"
proof (intro conjI impI)
  show "\<exists>s'. run cfg s inps = Some s'
            \<and> uint (wheel_left_ticks s') < 9000 \<and> uint (wheel_right_ticks s') < 9000"
    using assms by (rule run_keeps_bound)
next
  assume "\<not> offsetcount s < 2000 \<and> \<not> OverrunFlag s"
  then have a: "\<not> offsetcount s < 2000" "\<not> OverrunFlag s" by simp_all
  obtain s' where s': "DMA1_Channel1_IRQHandler cfg inp s = Some s'"
    using tick_total by blast
  obtain encl dl where l:
      "hall_position (hall (LEFT_HALL_U inp)) (hall (LEFT_HALL_V inp)) (hall (LEFT_HALL_W inp))
         = Some encl"
      "calc_encoder_ticks (enc_val_previous_left s) encl = Some dl"
      "sint dl \<in> {- 2, - 1, 0, 1, 2}"
      "wheel_left_ticks s' =
        word_of_int (sint (word_of_int (uint (wheel_left_ticks s) + sint dl) :: 16 word) mod 9000)"
      "enc_val_previous_left s' = encl"
    using tick_odometry(1) [OF a s'] by blast
  obtain encr dr where r:
      "hall_position (hall (RIGHT_HALL_U inp)) (hall (RIGHT_HALL_V inp)) (hall (RIGHT_HALL_W inp))
         = Some encr"
      "calc_encoder_ticks (enc_val_previous_right s) encr = Some dr"
      "sint dr \<in> {- 2, - 1, 0, 1, 2}"
      "wheel_right_ticks s' =
        word_of_int (sint (word_of_int (uint (wheel_right_ticks s) - sint dr) :: 16 word) mod 9000)"
      "enc_val_previous_right s' = encr"
    using tick_odometry(2) [OF a s'] by blast
  have dl: "- 2 \<le> sint dl" "sint dl \<le> 2" using l(3) by auto
  have dr: "- 2 \<le> - sint dr" "- sint dr \<le> 2" using r(3) by auto
  have "uint (wheel_left_ticks s') = (uint (wheel_left_ticks s) + sint dl) mod 9000"
    unfolding l(4) using assms(1) dl by (intro wrapped_exact) simp_all
  moreover have "uint (wheel_right_ticks s') = (uint (wheel_right_ticks s) + - sint dr) mod 9000"
    unfolding r(4) using wrapped_exact [OF _ assms(2) dr] by simp
  ultimately show "\<exists>s' encl dl encr dr. DMA1_Channel1_IRQHandler cfg inp s = Some s'
             \<and> hall_position (hall (LEFT_HALL_U inp)) (hall (LEFT_HALL_V inp))
                 (hall (LEFT_HALL_W inp)) = Some encl
             \<and> calc_encoder_ticks (enc_val_previous_left s) encl = Some dl
             \<and> hall_position (hall (RIGHT_HALL_U inp)) (hall (RIGHT_HALL_V inp))
                 (hall (RIGHT_HALL_W inp)) = Some encr
             \<and> calc_encoder_ticks (enc_val_previous_right s) encr = Some dr
             \<and> sint dl \<in> {- 2, - 1, 0, 1, 2} \<and> sint dr \<in> {- 2, - 1, 0, 1, 2}
             \<and> uint (wheel_left_ticks s') = (uint (wheel_left_ticks s) + sint dl) mod 9000
             \<and> uint (wheel_right_ticks s') = (uint (wheel_right_ticks s) - sint dr) mod 9000
             \<and> enc_val_previous_left s' = encl \<and> enc_val_previous_right s' = encr"
    using s' l(1,2,3,5) r(1,2,3,5) by auto
qed

text \<open>The left counter at 8999 takes a forward step to 0; the right counter at 0 takes
  the same step, subtracted, to 8999.\<close>

theorem odometry_wrap_witness:
  "uint (wheel_left_ticks (test_state\<lparr>wheel_left_ticks := 8999\<rparr>)) < 9000
   \<and> uint (wheel_right_ticks (test_state\<lparr>wheel_left_ticks := 8999\<rparr>)) < 9000
   \<and> \<not> offsetcount (test_state\<lparr>wheel_left_ticks := 8999\<rparr>) < 2000
   \<and> \<not> OverrunFlag (test_state\<lparr>wheel_left_ticks := 8999\<rparr>)
   \<and> calc_encoder_ticks 0 1 = Some 1
   \<and> map_option wheel_left_ticks
       (DMA1_Channel1_IRQHandler test_config test_input
          (test_state\<lparr>wheel_left_ticks := 8999\<rparr>)) = Some 0
   \<and> map_option wheel_right_ticks
       (DMA1_Channel1_IRQHandler test_config test_input
          (test_state\<lparr>wheel_left_ticks := 8999\<rparr>)) = Some 8999
   \<and> map_option wheel_left_ticks
       (run test_config (test_state\<lparr>wheel_left_ticks := 8999\<rparr>) [test_input, test_input])
       = Some 0"
proof -
  have ev: "calc_encoder_ticks 0 1 = Some 1
   \<and> map_option wheel_left_ticks
       (DMA1_Channel1_IRQHandler test_config test_input
          (test_state\<lparr>wheel_left_ticks := 8999\<rparr>)) = Some 0
   \<and> map_option wheel_right_ticks
       (DMA1_Channel1_IRQHandler test_config test_input
          (test_state\<lparr>wheel_left_ticks := 8999\<rparr>)) = Some 8999
   \<and> map_option wheel_left_ticks
       (run test_config (test_state\<lparr>wheel_left_ticks := 8999\<rparr>) [test_input, test_input])
       = Some 0"
    by code_simp
  show ?thesis
    using odometry_wrap [of "test_state\<lparr>wheel_left_ticks := 8999\<rparr>" test_config
        "[test_input, test_input]" test_input]
      ev
    by (auto simp: test_state_def)
qed

subsection \<open>Invalid hall codes\<close>

lemma hall_position_invalid: "hall_position (hall a) (hall a) (hall a) = Some 0"
  by (cases a) (simp_all add: hall_position_def hall_def array_read_def vec_hallToPos_Value_def)

lemma calc_encoder_ticks_to_0:
  "calc_encoder_ticks p 0 = Some (enc_vals_table ! nat (uint p mod 6))"
  using calc_encoder_ticks_eq [of p 0] by simp

lemma delta_to_0:
  assumes "uint p \<le> 5"
  shows "sint (enc_vals_table ! nat (uint p mod 6)) = 0 \<longleftrightarrow> uint p = 0 \<or> uint p = 3"
proof -
  have "0 \<le> uint p" by simp
  then have "uint p = 0 \<or> uint p = 1 \<or> uint p = 2 \<or> uint p = 3 \<or> uint p = 4 \<or> uint p = 5"
    using assms by arith
  then show ?thesis by (auto simp: enc_vals_table_def)
qed

lemma wrapped_same:
  assumes "0 \<le> w" "w < 9000" "- 2 \<le> d" "d \<le> 2"
  shows "(w + d) mod 9000 = w \<longleftrightarrow> d = (0 :: int)"
proof
  assume e: "(w + d) mod 9000 = w"
  have "w mod 9000 = w" using assms(1,2) by simp
  then have "(w + d) mod 9000 = w mod 9000" using e by simp
  then have "9000 dvd (w + d) - w" by (simp only: mod_eq_dvd_iff)
  then have dv: "(9000 :: int) dvd d" by simp
  show "d = 0"
  proof (rule ccontr)
    assume "d \<noteq> 0"
    then have "\<bar>9000 :: int\<bar> \<le> \<bar>d\<bar>" using dv by (rule dvd_imp_le_int)
    then show False using assms(3,4) by simp
  qed
next
  assume "d = 0"
  then show "(w + d) mod 9000 = w" using assms(1,2) by simp
qed


lemma invalid_left:
  assumes "\<not> offsetcount s < 2000" and "\<not> OverrunFlag s"
    and "uint (wheel_left_ticks s) < 9000"
    and "DMA1_Channel1_IRQHandler cfg inp s = Some s'"
    and "LEFT_HALL_U inp = LEFT_HALL_V inp \<and> LEFT_HALL_V inp = LEFT_HALL_W inp"
  shows "enc_val_previous_left s' = 0
     \<and> uint (wheel_left_ticks s') =
         (uint (wheel_left_ticks s)
            + sint (enc_vals_table ! nat (uint (enc_val_previous_left s) mod 6))) mod 9000
     \<and> (uint (enc_val_previous_left s) \<le> 5 \<longrightarrow>
          (wheel_left_ticks s' = wheel_left_ticks s
             \<longleftrightarrow> uint (enc_val_previous_left s) = 0 \<or> uint (enc_val_previous_left s) = 3))"
proof -
  let ?d = "sint (enc_vals_table ! nat (uint (enc_val_previous_left s) mod 6))"
  let ?w = "uint (wheel_left_ticks s)"
  obtain enc d where o:
      "hall_position (hall (LEFT_HALL_U inp)) (hall (LEFT_HALL_V inp)) (hall (LEFT_HALL_W inp))
         = Some enc"
      "calc_encoder_ticks (enc_val_previous_left s) enc = Some d"
      "sint d \<in> {- 2, - 1, 0, 1, 2}"
      "wheel_left_ticks s' =
        word_of_int (sint (word_of_int (?w + sint d) :: 16 word) mod 9000)"
      "enc_val_previous_left s' = enc"
    using tick_odometry(1) [OF assms(1,2,4)] by blast
  have enc: "enc = 0" using o(1) assms(5) by (simp add: hall_position_invalid)
  have d: "sint d = ?d" using o(2) unfolding enc by (simp add: calc_encoder_ticks_to_0)
  have db: "- 2 \<le> ?d" "?d \<le> 2" using o(3) unfolding d by auto
  have w: "0 \<le> ?w" by simp
  have u: "uint (wheel_left_ticks s') = (?w + ?d) mod 9000"
    unfolding o(4) d using w assms(3) db by (rule wrapped_exact)
  have "wheel_left_ticks s' = wheel_left_ticks s \<longleftrightarrow> (?w + ?d) mod 9000 = ?w"
    unfolding word_uint_eq_iff u ..
  also have "\<dots> \<longleftrightarrow> ?d = 0" using w assms(3) db by (rule wrapped_same)
  finally have same: "wheel_left_ticks s' = wheel_left_ticks s \<longleftrightarrow> ?d = 0" .
  show ?thesis using o(5) enc u same delta_to_0 [of "enc_val_previous_left s"] by blast
qed

lemma invalid_right:
  assumes "\<not> offsetcount s < 2000" and "\<not> OverrunFlag s"
    and "uint (wheel_right_ticks s) < 9000"
    and "DMA1_Channel1_IRQHandler cfg inp s = Some s'"
    and "RIGHT_HALL_U inp = RIGHT_HALL_V inp \<and> RIGHT_HALL_V inp = RIGHT_HALL_W inp"
  shows "enc_val_previous_right s' = 0
     \<and> uint (wheel_right_ticks s') =
         (uint (wheel_right_ticks s)
            - sint (enc_vals_table ! nat (uint (enc_val_previous_right s) mod 6))) mod 9000
     \<and> (uint (enc_val_previous_right s) \<le> 5 \<longrightarrow>
          (wheel_right_ticks s' = wheel_right_ticks s
             \<longleftrightarrow> uint (enc_val_previous_right s) = 0 \<or> uint (enc_val_previous_right s) = 3))"
proof -
  let ?d = "sint (enc_vals_table ! nat (uint (enc_val_previous_right s) mod 6))"
  let ?w = "uint (wheel_right_ticks s)"
  obtain enc d where o:
      "hall_position (hall (RIGHT_HALL_U inp)) (hall (RIGHT_HALL_V inp)) (hall (RIGHT_HALL_W inp))
         = Some enc"
      "calc_encoder_ticks (enc_val_previous_right s) enc = Some d"
      "sint d \<in> {- 2, - 1, 0, 1, 2}"
      "wheel_right_ticks s' =
        word_of_int (sint (word_of_int (?w - sint d) :: 16 word) mod 9000)"
      "enc_val_previous_right s' = enc"
    using tick_odometry(2) [OF assms(1,2,4)] by blast
  have enc: "enc = 0" using o(1) assms(5) by (simp add: hall_position_invalid)
  have d: "sint d = ?d" using o(2) unfolding enc by (simp add: calc_encoder_ticks_to_0)
  have db: "- 2 \<le> - ?d" "- ?d \<le> 2" using o(3) unfolding d by auto
  have w: "0 \<le> ?w" by simp
  have "uint (word_of_int (sint (word_of_int (?w + - ?d) :: 16 word) mod 9000) :: 16 word)
          = (?w + - ?d) mod 9000"
    using w assms(3) db by (rule wrapped_exact)
  then have u: "uint (wheel_right_ticks s') = (?w + - ?d) mod 9000"
    unfolding o(4) d by simp
  have "wheel_right_ticks s' = wheel_right_ticks s \<longleftrightarrow> (?w + - ?d) mod 9000 = ?w"
    unfolding word_uint_eq_iff u ..
  also have "\<dots> \<longleftrightarrow> - ?d = 0" using w assms(3) db by (rule wrapped_same)
  finally have same: "wheel_right_ticks s' = wheel_right_ticks s \<longleftrightarrow> ?d = 0" by simp
  have u': "uint (wheel_right_ticks s') = (?w - ?d) mod 9000" using u by simp
  show ?thesis using o(5) enc u' same delta_to_0 [of "enc_val_previous_right s"] by blast
qed

text \<open>
  Claim C5, amended. A tick that samples an invalid raw hall code (0 or 7: the three lines
  of a motor at one level) completes without an error and decodes the code as position 0,
  as it does the raw code 2. The counter of the motor moves by the delta of the table for
  the transition from the previous code to 0, modulo 9000, added on the left and
  subtracted on the right. For a previous code in 0 to 5 the counter is unchanged exactly
  when the previous code is 0 or 3.
\<close>

theorem invalid_hall_code:
  assumes "\<not> offsetcount s < 2000" and "\<not> OverrunFlag s"
    and "uint (wheel_left_ticks s) < 9000" and "uint (wheel_right_ticks s) < 9000"
  shows "\<exists>s'. DMA1_Channel1_IRQHandler cfg inp s = Some s'
     \<and> (LEFT_HALL_U inp = LEFT_HALL_V inp \<and> LEFT_HALL_V inp = LEFT_HALL_W inp \<longrightarrow>
          enc_val_previous_left s' = 0
          \<and> uint (wheel_left_ticks s') =
              (uint (wheel_left_ticks s)
                 + sint (enc_vals_table ! nat (uint (enc_val_previous_left s) mod 6))) mod 9000
          \<and> (uint (enc_val_previous_left s) \<le> 5 \<longrightarrow>
               (wheel_left_ticks s' = wheel_left_ticks s
                  \<longleftrightarrow> uint (enc_val_previous_left s) = 0 \<or> uint (enc_val_previous_left s) = 3)))
     \<and> (RIGHT_HALL_U inp = RIGHT_HALL_V inp \<and> RIGHT_HALL_V inp = RIGHT_HALL_W inp \<longrightarrow>
          enc_val_previous_right s' = 0
          \<and> uint (wheel_right_ticks s') =
              (uint (wheel_right_ticks s)
                 - sint (enc_vals_table ! nat (uint (enc_val_previous_right s) mod 6))) mod 9000
          \<and> (uint (enc_val_previous_right s) \<le> 5 \<longrightarrow>
               (wheel_right_ticks s' = wheel_right_ticks s
                  \<longleftrightarrow> uint (enc_val_previous_right s) = 0
                      \<or> uint (enc_val_previous_right s) = 3)))"
proof -
  obtain s' where s': "DMA1_Channel1_IRQHandler cfg inp s = Some s'"
    using tick_total by blast
  show ?thesis
    using s' invalid_left [OF assms(1,2,3) s'] invalid_right [OF assms(1,2,4) s'] by blast
qed

text \<open>All three left lines high, raw code 0, after the previous code 3: the left counter
  stays at 5.\<close>

theorem invalid_hall_code_witness:
  "\<not> offsetcount (test_state\<lparr>enc_val_previous_left := 3, wheel_left_ticks := 5\<rparr>) < 2000
   \<and> \<not> OverrunFlag (test_state\<lparr>enc_val_previous_left := 3, wheel_left_ticks := 5\<rparr>)
   \<and> uint (wheel_left_ticks (test_state\<lparr>enc_val_previous_left := 3, wheel_left_ticks := 5\<rparr>))
       < 9000
   \<and> uint (wheel_right_ticks (test_state\<lparr>enc_val_previous_left := 3, wheel_left_ticks := 5\<rparr>))
       < 9000
   \<and> LEFT_HALL_U (test_input\<lparr>LEFT_HALL_V := True, LEFT_HALL_W := True\<rparr>)
   \<and> LEFT_HALL_V (test_input\<lparr>LEFT_HALL_V := True, LEFT_HALL_W := True\<rparr>)
   \<and> LEFT_HALL_W (test_input\<lparr>LEFT_HALL_V := True, LEFT_HALL_W := True\<rparr>)
   \<and> map_option wheel_left_ticks
       (DMA1_Channel1_IRQHandler test_config
          (test_input\<lparr>LEFT_HALL_V := True, LEFT_HALL_W := True\<rparr>)
          (test_state\<lparr>enc_val_previous_left := 3, wheel_left_ticks := 5\<rparr>)) = Some 5
   \<and> map_option enc_val_previous_left
       (DMA1_Channel1_IRQHandler test_config
          (test_input\<lparr>LEFT_HALL_V := True, LEFT_HALL_W := True\<rparr>)
          (test_state\<lparr>enc_val_previous_left := 3, wheel_left_ticks := 5\<rparr>)) = Some 0"
  using invalid_hall_code
    [of "test_state\<lparr>enc_val_previous_left := 3, wheel_left_ticks := 5\<rparr>" test_config
        "test_input\<lparr>LEFT_HALL_V := True, LEFT_HALL_W := True\<rparr>"]
  by (auto simp: test_state_def test_input_def)

text \<open>Claim C5 as stated leaves the counter unchanged for every previous code. After the
  previous code 1, the invalid raw codes 0 (all lines high) and 7 (all lines low) both
  move the left counter from 5 to 4.\<close>

theorem invalid_hall_code_counterexample:
  "push_bit 2 (hall True) + push_bit 1 (hall True) + hall True = 0
   \<and> push_bit 2 (hall False) + push_bit 1 (hall False) + hall False = 7
   \<and> wheel_left_ticks (test_state\<lparr>enc_val_previous_left := 1, wheel_left_ticks := 5\<rparr>) = 5
   \<and> map_option wheel_left_ticks
       (DMA1_Channel1_IRQHandler test_config
          (test_input\<lparr>LEFT_HALL_U := True, LEFT_HALL_V := True, LEFT_HALL_W := True\<rparr>)
          (test_state\<lparr>enc_val_previous_left := 1, wheel_left_ticks := 5\<rparr>)) = Some 4
   \<and> map_option wheel_left_ticks
       (DMA1_Channel1_IRQHandler test_config
          (test_input\<lparr>LEFT_HALL_U := False, LEFT_HALL_V := False, LEFT_HALL_W := False\<rparr>)
          (test_state\<lparr>enc_val_previous_left := 1, wheel_left_ticks := 5\<rparr>)) = Some 4"
  by code_simp

end
